theory Spec2Isabelle
  imports Main "HOL-Library.AList" "HOL-Library.Sublist"
begin

section \<open>JavaScript values and the browser's localStorage\<close>

text \<open>
  The values \<^verbatim>\<open>src/storage.js\<close> handles: what \<^verbatim>\<open>JSON.parse\<close> can return, plus
  \<^verbatim>\<open>undefined\<close>. Numbers are the integers (the store writes \<^verbatim>\<open>0\<close> and \<^verbatim>\<open>1\<close>
  only); an object is the list of its own properties.
\<close>

datatype jsval =
    JUndefined
  | JNull
  | JBool bool
  | JNum int
  | JStr string
  | JArr "jsval list"
  | JObj "(string \<times> jsval) list"

text \<open>What the source can throw: the built-in errors and \<^verbatim>\<open>new Error(message)\<close>.\<close>

datatype error = SyntaxError | TypeError | Error string

text \<open>\<^verbatim>\<open>!!v\<close>: the values JavaScript takes for true in a condition.\<close>

fun truthy :: "jsval \<Rightarrow> bool" where
  "truthy JUndefined = False"
| "truthy JNull = False"
| "truthy (JBool b) = b"
| "truthy (JNum n) = (n \<noteq> 0)"
| "truthy (JStr s) = (s \<noteq> [])"
| "truthy (JArr xs) = True"
| "truthy (JObj fs) = True"

text \<open>
  \<^verbatim>\<open>v.name\<close> for the property names the source reads (\<^verbatim>\<open>mainKey\<close>, \<^verbatim>\<open>data\<close>,
  \<^verbatim>\<open>xpubkey\<close>, ...), none of which a built-in prototype defines: a TypeError on
  \<^verbatim>\<open>null\<close> and \<^verbatim>\<open>undefined\<close>, the own property of an object, and \<^verbatim>\<open>undefined\<close>
  on every other value.
\<close>

fun getProp :: "jsval \<Rightarrow> string \<Rightarrow> error + jsval" where
  "getProp JUndefined name = Inl TypeError"
| "getProp JNull name = Inl TypeError"
| "getProp (JObj fs) name = Inr (case map_of fs name of None \<Rightarrow> JUndefined | Some v \<Rightarrow> v)"
| "getProp v name = Inr JUndefined"

text \<open>
  A text stored in localStorage, by what \<^verbatim>\<open>JSON.parse\<close> does with it: \<open>Json v\<close> is a
  text that parses to the value \<open>v\<close>, \<open>Raw s\<close> is the text \<open>s\<close> when \<^verbatim>\<open>JSON.parse\<close>
  rejects it with a SyntaxError.
\<close>

datatype lsentry = Json jsval | Raw string

text \<open>
  The value \<^verbatim>\<open>JSON.parse(JSON.stringify(v))\<close> for \<open>v\<close> other than \<^verbatim>\<open>undefined\<close>:
  a property whose value is \<^verbatim>\<open>undefined\<close> is left out, \<^verbatim>\<open>undefined\<close> in an array
  becomes \<^verbatim>\<open>null\<close>.
\<close>

fun json_value :: "jsval \<Rightarrow> jsval" where
  "json_value (JArr xs) = JArr (map (\<lambda>x. if x = JUndefined then JNull else json_value x) xs)"
| "json_value (JObj fs) =
     JObj (map (\<lambda>p. (fst p, json_value (snd p))) (filter (\<lambda>p. snd p \<noteq> JUndefined) fs))"
| "json_value v = v"

text \<open>
  \<^verbatim>\<open>localStorage.setItem(key, JSON.stringify(value))\<close> stores this text:
  \<^verbatim>\<open>JSON.stringify(undefined)\<close> is \<^verbatim>\<open>undefined\<close>, which localStorage turns into the
  text \<^verbatim>\<open>undefined\<close>, and that is not JSON.
\<close>

fun JSON_stringify :: "jsval \<Rightarrow> lsentry" where
  "JSON_stringify JUndefined = Raw ''undefined''"
| "JSON_stringify v = Json (json_value v)"

text \<open>
  \<^verbatim>\<open>JSON.parse(localStorage.getItem(key))\<close>: a missing key reads as \<^verbatim>\<open>null\<close>, which
  parses to \<^verbatim>\<open>null\<close>.
\<close>

fun JSON_parse :: "lsentry option \<Rightarrow> error + jsval" where
  "JSON_parse None = Inr JNull"
| "JSON_parse (Some (Json v)) = Inr v"
| "JSON_parse (Some (Raw s)) = Inl SyntaxError"

section \<open>The store and its collaborators\<close>

text \<open>\<^verbatim>\<open>new Storage(new LevelDBStore(walletId))\<close>: the handle knows its wallet id.\<close>

datatype handle = Storage jsval

text \<open>
  The state the class works on: the browser's localStorage (keys in insertion order),
  the cached \<^verbatim>\<open>this._storage\<close>, and the state of \<^verbatim>\<open>@hathor/wallet-lib\<close>
  (the LevelDB databases, the network configuration, the random source).
\<close>

record 'lib store =
  localStorage :: "(string \<times> lsentry) list"
  this_storage :: "handle option"
  lib :: 'lib

text \<open>
  What the source imports and this repository does not define: \<^verbatim>\<open>VERSION\<close> of
  \<^verbatim>\<open>./constants\<close>, and the functions of \<^verbatim>\<open>@hathor/wallet-lib\<close> and \<^verbatim>\<open>crypto-js\<close>.
  Each may throw. \<open>AES_decrypt_Utf8 c p\<close> is
  \<^verbatim>\<open>CryptoJS.AES.decrypt(c, p).toString(CryptoJS.enc.Utf8)\<close>.
\<close>

record 'lib env =
  VERSION :: jsval
  WalletType_P2PKH :: jsval
  config_getNetwork_name :: "'lib \<Rightarrow> jsval"
  network_setNetwork :: "jsval \<Rightarrow> 'lib \<Rightarrow> (error + unit) \<times> 'lib"
  generateAccessDataFromSeed :: "jsval \<Rightarrow> jsval \<Rightarrow> 'lib \<Rightarrow> (error + jsval) \<times> 'lib"
  generateAccessDataFromXpub :: "jsval \<Rightarrow> jsval \<Rightarrow> error + jsval"
  getWalletIdFromXPub :: "jsval \<Rightarrow> error + jsval"
  saveAccessData :: "handle \<Rightarrow> jsval \<Rightarrow> 'lib \<Rightarrow> (error + unit) \<times> 'lib"
  getAccessData :: "handle \<Rightarrow> 'lib \<Rightarrow> (error + jsval) \<times> 'lib"
  registerToken :: "handle \<Rightarrow> jsval \<Rightarrow> 'lib \<Rightarrow> (error + unit) \<times> 'lib"
  AES_decrypt_Utf8 :: "jsval \<Rightarrow> jsval \<Rightarrow> error + jsval"
  encryptData :: "jsval \<Rightarrow> jsval \<Rightarrow> 'lib \<Rightarrow> (error + jsval) \<times> 'lib"
  decryptData :: "jsval \<Rightarrow> jsval \<Rightarrow> error + jsval"
  checkPassword :: "jsval \<Rightarrow> jsval \<Rightarrow> error + jsval"

text \<open>
  A method of the class: from the state to what it returns or throws, and the state it
  leaves. \<open>andThen\<close> is the sequencing of two statements, an exception of the first
  skipping the second.
\<close>

type_synonym ('a, 'lib) action = "'lib store \<Rightarrow> (error + 'a) \<times> 'lib store"

definition andThen :: "('a, 'lib) action \<Rightarrow> ('a \<Rightarrow> ('b, 'lib) action) \<Rightarrow> ('b, 'lib) action" where
  "andThen m f st = (case m st of (Inl e, st') \<Rightarrow> (Inl e, st') | (Inr a, st') \<Rightarrow> f a st')"

definition return :: "'a \<Rightarrow> ('a, 'lib) action" where
  "return a st = (Inr a, st)"

definition throw :: "error \<Rightarrow> ('a, 'lib) action" where
  "throw e st = (Inl e, st)"

text \<open>A call that reads no state: its result or its exception.\<close>

definition pure :: "error + 'a \<Rightarrow> ('a, 'lib) action" where
  "pure r st = (r, st)"

text \<open>A call into wallet-lib that may change wallet-lib's state.\<close>

definition libcall :: "('lib \<Rightarrow> (error + 'a) \<times> 'lib) \<Rightarrow> ('a, 'lib) action" where
  "libcall f st = (case f (lib st) of (r, l) \<Rightarrow> (r, st\<lparr>lib := l\<rparr>))"

section \<open>Storage keys\<close>

definition WALLET_VERSION_KEY :: string where "WALLET_VERSION_KEY = ''localstorage:version''"
definition STORE_VERSION_KEY :: string where "STORE_VERSION_KEY = ''localstorage:storeversion''"
definition LEDGER_APP_VERSION_KEY :: string where "LEDGER_APP_VERSION_KEY = ''localstorage:ledger:version''"
definition LOCKED_KEY :: string where "LOCKED_KEY = ''localstorage:lock''"
definition CLOSED_KEY :: string where "CLOSED_KEY = ''localstorage:closed''"
definition STARTED_KEY :: string where "STARTED_KEY = ''localstorage:started''"
definition NETWORK_KEY :: string where "NETWORK_KEY = ''localstorage:network''"
definition IS_HARDWARE_KEY :: string where "IS_HARDWARE_KEY = ''localstorage:ishardware''"
definition TOKEN_SIGNATURES_KEY :: string where "TOKEN_SIGNATURES_KEY = ''localstorage:token:signatures''"
definition IS_BACKUP_DONE_KEY :: string where "IS_BACKUP_DONE_KEY = ''localstorage:backup''"
definition SERVER_KEY :: string where "SERVER_KEY = ''localstorage:server''"
definition WS_SERVER_KEY :: string where "WS_SERVER_KEY = ''localstorage:wsserver''"

definition storageKeys :: "string list" where
  "storageKeys =
     [WALLET_VERSION_KEY, STORE_VERSION_KEY, LOCKED_KEY, CLOSED_KEY, STARTED_KEY,
      NETWORK_KEY, IS_HARDWARE_KEY, TOKEN_SIGNATURES_KEY, IS_BACKUP_DONE_KEY,
      SERVER_KEY, WS_SERVER_KEY]"

text \<open>The class field \<^verbatim>\<open>version = 1\<close>.\<close>

definition version :: jsval where
  "version = JNum 1"

section \<open>The key-value adapter\<close>

definition setItem :: "string \<Rightarrow> jsval \<Rightarrow> (unit, 'lib) action" where
  "setItem key v st =
     (Inr (), st\<lparr>localStorage := AList.update key (JSON_stringify v) (localStorage st)\<rparr>)"

text \<open>
  \<open>getItem\<close>: the \<^verbatim>\<open>try\<close> returns what \<^verbatim>\<open>JSON.parse\<close> gives; the \<^verbatim>\<open>catch\<close> of a
  SyntaxError, where \<^verbatim>\<open>item\<close> is the stored text, first saves the text as JSON and
  then returns it. \<^verbatim>\<open>JSON.parse\<close> throws nothing else.
\<close>

definition getItem :: "string \<Rightarrow> (jsval, 'lib) action" where
  "getItem key st =
     (let item = map_of (localStorage st) key in
      case JSON_parse item of
        Inr v \<Rightarrow> (Inr v, st)
      | Inl e \<Rightarrow>
          (case item of
             Some (Raw s) \<Rightarrow> andThen (setItem key (JStr s)) (\<lambda>_. return (JStr s)) st
           | _ \<Rightarrow> (Inl e, st)))"

definition removeItem :: "string \<Rightarrow> (unit, 'lib) action" where
  "removeItem key st = (Inr (), st\<lparr>localStorage := AList.delete key (localStorage st)\<rparr>)"

definition clear :: "(unit, 'lib) action" where
  "clear st = (Inr (), st\<lparr>localStorage := []\<rparr>)"

section \<open>The class \<^verbatim>\<open>LocalStorageStore\<close>\<close>

text \<open>The assignment \<^verbatim>\<open>this._storage = h\<close>.\<close>

definition set_this_storage :: "handle option \<Rightarrow> (unit, 'lib) action" where
  "set_this_storage h st = (Inr (), st\<lparr>this_storage := h\<rparr>)"

text \<open>
  \<open>field v name\<close> is \<^verbatim>\<open>v.name\<close> where an earlier read of a property of \<open>v\<close> has
  already passed, so that \<open>v\<close> is neither \<^verbatim>\<open>null\<close> nor \<^verbatim>\<open>undefined\<close>.
\<close>

definition field :: "jsval \<Rightarrow> string \<Rightarrow> jsval" where
  "field v name = (case getProp v name of Inr x \<Rightarrow> x | Inl e \<Rightarrow> JUndefined)"

definition getWalletId :: "(jsval, 'lib) action" where
  "getWalletId = getItem ''wallet:id''"

definition isLoadedSync :: "(jsval, 'lib) action" where
  "isLoadedSync =
     andThen getWalletId (\<lambda>walletId.
       if truthy walletId then return (JBool True)
       else andThen (getItem ''wallet:accessData'') (\<lambda>accessData.
         return (JBool (truthy accessData))))"

definition setWalletId :: "jsval \<Rightarrow> (unit, 'lib) action" where
  "setWalletId walletId = setItem ''wallet:id'' walletId"

definition cleanWallet :: "(unit, 'lib) action" where
  "cleanWallet =
     andThen (removeItem ''wallet:id'') (\<lambda>_.
     andThen (removeItem IS_HARDWARE_KEY) (\<lambda>_.
     andThen (removeItem CLOSED_KEY) (\<lambda>_.
     set_this_storage None)))"

text \<open>The loop \<^verbatim>\<open>for (const key of storageKeys) this.removeItem(key)\<close>.\<close>

fun removeItems :: "string list \<Rightarrow> (unit, 'lib) action" where
  "removeItems [] = return ()"
| "removeItems (key # keys) = andThen (removeItem key) (\<lambda>_. removeItems keys)"

definition resetStorage :: "(unit, 'lib) action" where
  "resetStorage = andThen (removeItem ''wallet:id'') (\<lambda>_. removeItems storageKeys)"

definition setHardwareWallet :: "jsval \<Rightarrow> (unit, 'lib) action" where
  "setHardwareWallet v = setItem IS_HARDWARE_KEY v"

definition isHardwareWallet :: "(jsval, 'lib) action" where
  "isHardwareWallet =
     andThen (getItem IS_HARDWARE_KEY) (\<lambda>v. return (if truthy v then v else JBool False))"

definition getStorageVersion :: "(jsval, 'lib) action" where
  "getStorageVersion = getItem STORE_VERSION_KEY"

definition updateStorageVersion :: "(unit, 'lib) action" where
  "updateStorageVersion = setItem STORE_VERSION_KEY version"

text \<open>
  \<open>getStorage\<close>: the cached handle, or a new one for the stored wallet id, or
  \<^verbatim>\<open>null\<close> (\<open>None\<close>) when no wallet id is stored.
\<close>

definition getStorage :: "(handle option, 'lib) action" where
  "getStorage st =
     (case this_storage st of
        Some h \<Rightarrow> (Inr (Some h), st)
      | None \<Rightarrow>
          andThen getWalletId (\<lambda>walletId.
            if \<not> truthy walletId then return None
            else andThen (set_this_storage (Some (Storage walletId))) (\<lambda>_.
              return (Some (Storage walletId)))) st)"

text \<open>
  The method calls on what \<open>getStorage\<close> returned: a TypeError on \<^verbatim>\<open>null\<close>, and the
  \<^verbatim>\<open>await\<close> throws what the promise rejects with.
\<close>

definition storage_saveAccessData ::
    "'lib env \<Rightarrow> handle option \<Rightarrow> jsval \<Rightarrow> (unit, 'lib) action" where
  "storage_saveAccessData env storage accessData =
     (case storage of
        None \<Rightarrow> throw TypeError
      | Some h \<Rightarrow> libcall (saveAccessData env h accessData))"

definition storage_getAccessData :: "'lib env \<Rightarrow> handle option \<Rightarrow> (jsval, 'lib) action" where
  "storage_getAccessData env storage =
     (case storage of
        None \<Rightarrow> throw TypeError
      | Some h \<Rightarrow> libcall (getAccessData env h))"

definition storage_registerToken ::
    "'lib env \<Rightarrow> handle option \<Rightarrow> jsval \<Rightarrow> (unit, 'lib) action" where
  "storage_registerToken env storage token =
     (case storage of
        None \<Rightarrow> throw TypeError
      | Some h \<Rightarrow> libcall (registerToken env h token))"

definition initStorage ::
    "'lib env \<Rightarrow> jsval \<Rightarrow> jsval \<Rightarrow> jsval \<Rightarrow> jsval \<Rightarrow> (handle option, 'lib) action" where
  "initStorage env seed password pin passphrase0 =
     (let passphrase = (if passphrase0 = JUndefined then JStr [] else passphrase0) in
      andThen (set_this_storage None) (\<lambda>_.
      andThen (setHardwareWallet (JBool False)) (\<lambda>_.
      andThen (\<lambda>st. libcall (generateAccessDataFromSeed env seed
                 (JObj [(''pin'', pin), (''passphrase'', passphrase), (''password'', password),
                        (''networkName'', config_getNetwork_name env (lib st))])) st)
        (\<lambda>accessData.
      andThen (pure (getProp accessData ''xpubkey'')) (\<lambda>xpubkey.
      andThen (pure (getWalletIdFromXPub env xpubkey)) (\<lambda>walletId.
      andThen (setWalletId walletId) (\<lambda>_.
      andThen getStorage (\<lambda>storage.
      andThen (storage_saveAccessData env storage accessData) (\<lambda>_.
      andThen (set_this_storage storage) (\<lambda>_.
      andThen updateStorageVersion (\<lambda>_.
      return storage)))))))))))"

definition initHWStorage :: "'lib env \<Rightarrow> jsval \<Rightarrow> (handle option, 'lib) action" where
  "initHWStorage env xpub =
     andThen (set_this_storage None) (\<lambda>_.
     andThen (setHardwareWallet (JBool True)) (\<lambda>_.
     andThen (pure (generateAccessDataFromXpub env xpub (JObj [(''hardware'', JBool True)])))
       (\<lambda>accessData.
     andThen (pure (getProp accessData ''xpubkey'')) (\<lambda>xpubkey.
     andThen (pure (getWalletIdFromXPub env xpubkey)) (\<lambda>walletId.
     andThen (setWalletId walletId) (\<lambda>_.
     andThen getStorage (\<lambda>storage.
     andThen (storage_saveAccessData env storage accessData) (\<lambda>_.
     andThen (set_this_storage storage) (\<lambda>_.
     andThen updateStorageVersion (\<lambda>_.
     return storage))))))))))"

definition getAccessData_private :: "'lib env \<Rightarrow> (jsval, 'lib) action" where
  "getAccessData_private env =
     andThen getStorage (\<lambda>storage.
       if storage = None then return JNull
       else storage_getAccessData env storage)"

definition getAvailableAccessData :: "'lib env \<Rightarrow> (jsval, 'lib) action" where
  "getAvailableAccessData env =
     andThen (getItem ''wallet:accessData'') (\<lambda>accessData.
       if \<not> truthy accessData then getAccessData_private env
       else return accessData)"

definition isLoaded :: "'lib env \<Rightarrow> (jsval, 'lib) action" where
  "isLoaded env =
     andThen (getAvailableAccessData env) (\<lambda>accessData. return (JBool (truthy accessData)))"

definition getOldWalletWords :: "'lib env \<Rightarrow> jsval \<Rightarrow> (jsval, 'lib) action" where
  "getOldWalletWords env password =
     andThen (getItem ''wallet:accessData'') (\<lambda>accessData.
       if \<not> truthy accessData then return JNull
       else pure (AES_decrypt_Utf8 env (field accessData ''words'') password))"

definition getWalletWords :: "'lib env \<Rightarrow> jsval \<Rightarrow> (jsval, 'lib) action" where
  "getWalletWords env password =
     andThen getStorage (\<lambda>storage.
       if storage = None then throw (Error ''Cannot get words from uninitialized wallet'')
       else andThen (storage_getAccessData env storage) (\<lambda>data.
            andThen (pure (getProp data ''words'')) (\<lambda>words.
            pure (decryptData env words password))))"

text \<open>
  What \<^verbatim>\<open>for (const token of oldTokens)\<close> runs over: the elements of an array, the
  characters of a string; any other value here is not iterable, a TypeError.
\<close>

fun iterate :: "jsval \<Rightarrow> error + jsval list" where
  "iterate (JArr xs) = Inr xs"
| "iterate (JStr s) = Inr (map (\<lambda>c. JStr [c]) s)"
| "iterate v = Inl TypeError"

fun registerTokens :: "'lib env \<Rightarrow> handle option \<Rightarrow> jsval list \<Rightarrow> (unit, 'lib) action" where
  "registerTokens env storage [] = return ()"
| "registerTokens env storage (token # tokens) =
     andThen (storage_registerToken env storage token) (\<lambda>_. registerTokens env storage tokens)"

definition handleMigrationOldRegisteredTokens ::
    "'lib env \<Rightarrow> handle option \<Rightarrow> (unit, 'lib) action" where
  "handleMigrationOldRegisteredTokens env storage =
     andThen (getItem ''wallet:tokens'') (\<lambda>oldTokens.
       if \<not> truthy oldTokens then return ()
       else andThen (pure (iterate oldTokens)) (\<lambda>tokens. registerTokens env storage tokens))"

definition markBackupDone :: "(unit, 'lib) action" where
  "markBackupDone = setItem IS_BACKUP_DONE_KEY (JBool True)"

definition migrateAccessData :: "'lib env \<Rightarrow> jsval \<Rightarrow> (jsval, 'lib) action" where
  "migrateAccessData env pin =
     andThen (getItem ''wallet:accessData'') (\<lambda>oldAccessData.
     andThen (pure (getProp oldAccessData ''acctPathMainKey'')) (\<lambda>acctPathMainKey.
     andThen (if truthy acctPathMainKey
              then andThen (pure (AES_decrypt_Utf8 env acctPathMainKey pin)) (\<lambda>acctKeyStr.
                     libcall (encryptData env acctKeyStr pin))
              else return JUndefined) (\<lambda>acctPathKey.
     andThen (if truthy (field oldAccessData ''authKey'')
              then andThen (pure (AES_decrypt_Utf8 env (field oldAccessData ''authKey'') pin))
                     (\<lambda>authKeyStr. libcall (encryptData env authKeyStr pin))
              else return JUndefined) (\<lambda>authKey.
     return (JObj
       [(''walletType'', WalletType_P2PKH env),
        (''walletFlags'', JNum 0),
        (''xpubkey'', field oldAccessData ''xpubkey''),
        (''acctPathKey'', acctPathKey),
        (''authKey'', authKey),
        (''words'', JObj
           [(''data'', field oldAccessData ''words''),
            (''hash'', field oldAccessData ''hashPasswd''),
            (''salt'', field oldAccessData ''saltPasswd''),
            (''iterations'', field oldAccessData ''hashIterations''),
            (''pbkdf2Hasher'', field oldAccessData ''pbkdf2Hasher'')]),
        (''mainKey'', JObj
           [(''data'', field oldAccessData ''mainKey''),
            (''hash'', field oldAccessData ''hash''),
            (''salt'', field oldAccessData ''salt''),
            (''iterations'', field oldAccessData ''hashIterations''),
            (''pbkdf2Hasher'', field oldAccessData ''pbkdf2Hasher'')])])))))"

text \<open>
  The loop over \<^verbatim>\<open>Object.keys(localStorage)\<close> at the end of the migration: every key
  with the prefix \<^verbatim>\<open>wallet:\<close> other than \<^verbatim>\<open>wallet:id\<close> is removed.
\<close>

fun removeWalletKeys :: "string list \<Rightarrow> (string \<times> lsentry) list \<Rightarrow> (string \<times> lsentry) list" where
  "removeWalletKeys [] ls = ls"
| "removeWalletKeys (key # keys) ls =
     (if key = ''wallet:id'' then removeWalletKeys keys ls
      else if prefix ''wallet:'' key then removeWalletKeys keys (AList.delete key ls)
      else removeWalletKeys keys ls)"

definition deleteOldData :: "(unit, 'lib) action" where
  "deleteOldData st =
     (Inr (), st\<lparr>localStorage :=
        removeWalletKeys (map fst (localStorage st)) (localStorage st)\<rparr>)"

definition handleDataMigration :: "'lib env \<Rightarrow> jsval \<Rightarrow> (unit, 'lib) action" where
  "handleDataMigration env pin =
     andThen getStorageVersion (\<lambda>storageVersion.
     andThen (if storageVersion = JNull
              then
                andThen (migrateAccessData env pin) (\<lambda>accessData.
                andThen (set_this_storage None) (\<lambda>_.
                andThen (setHardwareWallet (JBool False)) (\<lambda>_.
                andThen (pure (getWalletIdFromXPub env (field accessData ''xpubkey'')))
                  (\<lambda>walletId.
                andThen (setWalletId walletId) (\<lambda>_.
                andThen getStorage (\<lambda>storage.
                andThen (storage_saveAccessData env storage accessData) (\<lambda>_.
                andThen (set_this_storage storage) (\<lambda>_.
                andThen (handleMigrationOldRegisteredTokens env storage) (\<lambda>_.
                andThen (getItem ''wallet:backup'') (\<lambda>isBackupDone.
                andThen (if truthy isBackupDone then markBackupDone else return ()) (\<lambda>_.
                deleteOldData)))))))))))
              else return ()) (\<lambda>_.
     updateStorageVersion))"

definition checkPin :: "'lib env \<Rightarrow> jsval \<Rightarrow> (jsval, 'lib) action" where
  "checkPin env pinCode =
     andThen (getAvailableAccessData env) (\<lambda>accessData.
     andThen (pure (getProp accessData ''mainKey'')) (\<lambda>mainKey.
     andThen (pure (getProp mainKey ''data'')) (\<lambda>data.
       let mainEncryptedData =
         (if \<not> truthy data
          then JObj
            [(''data'', field accessData ''mainKey''),
             (''hash'', field accessData ''hash''),
             (''salt'', field accessData ''salt''),
             (''iterations'', field accessData ''hashIterations''),
             (''pbkdf2Hasher'', field accessData ''pbkdf2Hasher'')]
          else mainKey)
       in pure (checkPassword env mainEncryptedData pinCode))))"

section \<open>Settings\<close>

definition setServers :: "jsval \<Rightarrow> jsval \<Rightarrow> (unit, 'lib) action" where
  "setServers serverURL wsServerURL =
     andThen (setItem SERVER_KEY serverURL) (\<lambda>_.
       if truthy wsServerURL then setItem WS_SERVER_KEY serverURL else return ())"

definition getServer :: "(jsval, 'lib) action" where
  "getServer = getItem SERVER_KEY"

definition getWsServer :: "(jsval, 'lib) action" where
  "getWsServer = getItem WS_SERVER_KEY"

definition lock :: "(unit, 'lib) action" where
  "lock = setItem LOCKED_KEY (JBool True)"

definition unlock :: "(unit, 'lib) action" where
  "unlock = setItem LOCKED_KEY (JBool False)"

definition isLocked :: "(jsval, 'lib) action" where
  "isLocked =
     andThen (getItem LOCKED_KEY) (\<lambda>v.
       return (if v = JNull \<or> v = JUndefined then JBool True else v))"

definition close :: "(unit, 'lib) action" where
  "close = setItem CLOSED_KEY (JBool True)"

definition wasClosed :: "(jsval, 'lib) action" where
  "wasClosed = andThen (getItem CLOSED_KEY) (\<lambda>v. return (if truthy v then v else JBool False))"

text \<open>The method \<^verbatim>\<open>open\<close>, a reserved word here.\<close>

definition openWallet :: "(unit, 'lib) action" where
  "openWallet = setItem CLOSED_KEY (JBool False)"

definition wasStarted :: "(jsval, 'lib) action" where
  "wasStarted = getItem STARTED_KEY"

definition markWalletAsStarted :: "(unit, 'lib) action" where
  "markWalletAsStarted = setItem STARTED_KEY (JBool True)"

definition getWalletVersion :: "(jsval, 'lib) action" where
  "getWalletVersion = getItem WALLET_VERSION_KEY"

definition setWalletVersion :: "'lib env \<Rightarrow> (unit, 'lib) action" where
  "setWalletVersion env = setItem WALLET_VERSION_KEY (VERSION env)"

definition setNetwork :: "'lib env \<Rightarrow> jsval \<Rightarrow> (unit, 'lib) action" where
  "setNetwork env networkName =
     andThen (setItem NETWORK_KEY networkName) (\<lambda>_.
     libcall (network_setNetwork env networkName))"

definition getNetwork :: "(jsval, 'lib) action" where
  "getNetwork = getItem NETWORK_KEY"

definition getTokenSignatures :: "(jsval, 'lib) action" where
  "getTokenSignatures =
     andThen (getItem TOKEN_SIGNATURES_KEY) (\<lambda>v. return (if truthy v then v else JObj []))"

definition setTokenSignatures :: "jsval \<Rightarrow> (unit, 'lib) action" where
  "setTokenSignatures data = setItem TOKEN_SIGNATURES_KEY data"

definition resetTokenSignatures :: "(unit, 'lib) action" where
  "resetTokenSignatures = removeItem TOKEN_SIGNATURES_KEY"

definition markBackupAsNotDone :: "(unit, 'lib) action" where
  "markBackupAsNotDone = removeItem IS_BACKUP_DONE_KEY"

definition isBackupDone :: "(jsval, 'lib) action" where
  "isBackupDone = andThen (getItem IS_BACKUP_DONE_KEY) (\<lambda>v. return (JBool (truthy v)))"

definition saveLedgerAppVersion :: "jsval \<Rightarrow> (unit, 'lib) action" where
  "saveLedgerAppVersion v = setItem LEDGER_APP_VERSION_KEY v"

definition getLedgerAppVersion :: "(jsval, 'lib) action" where
  "getLedgerAppVersion = getItem LEDGER_APP_VERSION_KEY"

section \<open>The operations of the store\<close>

text \<open>A call of a method of the class, with its arguments.\<close>

datatype operation =
    OpGetItem string
  | OpSetItem string jsval
  | OpRemoveItem string
  | OpClear
  | OpGetWalletId
  | OpIsLoadedSync
  | OpSetWalletId jsval
  | OpCleanWallet
  | OpResetStorage
  | OpInitStorage jsval jsval jsval jsval
  | OpInitHWStorage jsval
  | OpGetStorage
  | OpGetAccessData_private
  | OpGetAvailableAccessData
  | OpIsLoaded
  | OpGetStorageVersion
  | OpUpdateStorageVersion
  | OpGetOldWalletWords jsval
  | OpGetWalletWords jsval
  | OpHandleMigrationOldRegisteredTokens "handle option"
  | OpHandleDataMigration jsval
  | OpMigrateAccessData jsval
  | OpCheckPin jsval
  | OpSetServers jsval jsval
  | OpGetServer
  | OpGetWsServer
  | OpLock
  | OpUnlock
  | OpIsLocked
  | OpClose
  | OpWasClosed
  | OpOpen
  | OpWasStarted
  | OpMarkWalletAsStarted
  | OpGetWalletVersion
  | OpSetWalletVersion
  | OpSetNetwork jsval
  | OpGetNetwork
  | OpSetHardwareWallet jsval
  | OpIsHardwareWallet
  | OpGetTokenSignatures
  | OpSetTokenSignatures jsval
  | OpResetTokenSignatures
  | OpMarkBackupDone
  | OpMarkBackupAsNotDone
  | OpIsBackupDone
  | OpSaveLedgerAppVersion jsval
  | OpGetLedgerAppVersion

text \<open>The state a call leaves, whether it returns or throws.\<close>

primrec run :: "'lib env \<Rightarrow> operation \<Rightarrow> 'lib store \<Rightarrow> 'lib store" where
  "run env (OpGetItem key) st = snd (getItem key st)"
| "run env (OpSetItem key v) st = snd (setItem key v st)"
| "run env (OpRemoveItem key) st = snd (removeItem key st)"
| "run env OpClear st = snd (clear st)"
| "run env OpGetWalletId st = snd (getWalletId st)"
| "run env OpIsLoadedSync st = snd (isLoadedSync st)"
| "run env (OpSetWalletId v) st = snd (setWalletId v st)"
| "run env OpCleanWallet st = snd (cleanWallet st)"
| "run env OpResetStorage st = snd (resetStorage st)"
| "run env (OpInitStorage seed password pin passphrase) st =
     snd (initStorage env seed password pin passphrase st)"
| "run env (OpInitHWStorage xpub) st = snd (initHWStorage env xpub st)"
| "run env OpGetStorage st = snd (getStorage st)"
| "run env OpGetAccessData_private st = snd (getAccessData_private env st)"
| "run env OpGetAvailableAccessData st = snd (getAvailableAccessData env st)"
| "run env OpIsLoaded st = snd (isLoaded env st)"
| "run env OpGetStorageVersion st = snd (getStorageVersion st)"
| "run env OpUpdateStorageVersion st = snd (updateStorageVersion st)"
| "run env (OpGetOldWalletWords password) st = snd (getOldWalletWords env password st)"
| "run env (OpGetWalletWords password) st = snd (getWalletWords env password st)"
| "run env (OpHandleMigrationOldRegisteredTokens storage) st =
     snd (handleMigrationOldRegisteredTokens env storage st)"
| "run env (OpHandleDataMigration pin) st = snd (handleDataMigration env pin st)"
| "run env (OpMigrateAccessData pin) st = snd (migrateAccessData env pin st)"
| "run env (OpCheckPin pin) st = snd (checkPin env pin st)"
| "run env (OpSetServers serverURL wsServerURL) st = snd (setServers serverURL wsServerURL st)"
| "run env OpGetServer st = snd (getServer st)"
| "run env OpGetWsServer st = snd (getWsServer st)"
| "run env OpLock st = snd (lock st)"
| "run env OpUnlock st = snd (unlock st)"
| "run env OpIsLocked st = snd (isLocked st)"
| "run env OpClose st = snd (close st)"
| "run env OpWasClosed st = snd (wasClosed st)"
| "run env OpOpen st = snd (openWallet st)"
| "run env OpWasStarted st = snd (wasStarted st)"
| "run env OpMarkWalletAsStarted st = snd (markWalletAsStarted st)"
| "run env OpGetWalletVersion st = snd (getWalletVersion st)"
| "run env OpSetWalletVersion st = snd (setWalletVersion env st)"
| "run env (OpSetNetwork networkName) st = snd (setNetwork env networkName st)"
| "run env OpGetNetwork st = snd (getNetwork st)"
| "run env (OpSetHardwareWallet v) st = snd (setHardwareWallet v st)"
| "run env OpIsHardwareWallet st = snd (isHardwareWallet st)"
| "run env OpGetTokenSignatures st = snd (getTokenSignatures st)"
| "run env (OpSetTokenSignatures d) st = snd (setTokenSignatures d st)"
| "run env OpResetTokenSignatures st = snd (resetTokenSignatures st)"
| "run env OpMarkBackupDone st = snd (markBackupDone st)"
| "run env OpMarkBackupAsNotDone st = snd (markBackupAsNotDone st)"
| "run env OpIsBackupDone st = snd (isBackupDone st)"
| "run env (OpSaveLedgerAppVersion v) st = snd (saveLedgerAppVersion v st)"
| "run env OpGetLedgerAppVersion st = snd (getLedgerAppVersion st)"

text \<open>
  The operations that write the storage-version key with something other than the
  current version, or remove it: the factory reset and the adapter's own
  \<^verbatim>\<open>clear\<close>, \<^verbatim>\<open>setItem\<close> and \<^verbatim>\<open>removeItem\<close> on that key.
\<close>

fun drops_version :: "operation \<Rightarrow> bool" where
  "drops_version OpResetStorage = True"
| "drops_version OpClear = True"
| "drops_version (OpSetItem key v) = (key = STORE_VERSION_KEY)"
| "drops_version (OpRemoveItem key) = (key = STORE_VERSION_KEY)"
| "drops_version opn = False"

section \<open>A stand-in for wallet-lib, for running the store on concrete inputs\<close>

text \<open>
  The LevelDB databases are a list from wallet id to access data, and from wallet id
  and token uid to a registered token. The PIN stands for its own hash; \<^verbatim>\<open>1234\<close> is
  the PIN that decrypts.
\<close>

definition example_env :: "(jsval \<times> jsval) list env" where
  "example_env = \<lparr>
     VERSION = JStr ''0.27.1'',
     WalletType_P2PKH = JStr ''p2pkh'',
     config_getNetwork_name = (\<lambda>l. JStr ''mainnet''),
     network_setNetwork = (\<lambda>networkName l. (Inr (), l)),
     generateAccessDataFromSeed = (\<lambda>seed options l.
       (Inr (JObj
          [(''walletType'', JStr ''p2pkh''),
           (''walletFlags'', JNum 0),
           (''xpubkey'', JStr ''xpub-seed''),
           (''words'', JObj [(''data'', seed), (''hash'', field options ''password'')]),
           (''mainKey'', JObj [(''data'', JStr ''xpriv''), (''hash'', field options ''pin'')])]),
        l)),
     generateAccessDataFromXpub = (\<lambda>xpub options.
       Inr (JObj
         [(''walletType'', JStr ''p2pkh''), (''walletFlags'', JNum 2), (''xpubkey'', xpub)])),
     getWalletIdFromXPub = (\<lambda>xpub.
       case xpub of JStr s \<Rightarrow> Inr (JStr (''id-'' @ s)) | _ \<Rightarrow> Inl TypeError),
     saveAccessData = (\<lambda>h accessData l.
       case h of Storage walletId \<Rightarrow> (Inr (), AList.update walletId accessData l)),
     getAccessData = (\<lambda>h l.
       case h of Storage walletId \<Rightarrow>
         (Inr (case map_of l walletId of None \<Rightarrow> JNull | Some accessData \<Rightarrow> accessData), l)),
     registerToken = (\<lambda>h token l.
       case h of Storage walletId \<Rightarrow>
         (Inr (), AList.update (JArr [walletId, field token ''uid'']) token l)),
     AES_decrypt_Utf8 = (\<lambda>ciphertext password.
       if password = JStr ''1234''
       then (case ciphertext of JStr s \<Rightarrow> Inr (JStr (''dec-'' @ s)) | _ \<Rightarrow> Inl TypeError)
       else Inl (Error ''Malformed UTF-8 data'')),
     encryptData = (\<lambda>secret password l.
       (Inr (JObj [(''data'', secret), (''hash'', password), (''salt'', JStr ''s''),
                   (''iterations'', JNum 1000), (''pbkdf2Hasher'', JStr ''sha1'')]), l)),
     decryptData = (\<lambda>secret password.
       if field secret ''hash'' = password then Inr (field secret ''data'')
       else Inl (Error ''Invalid password'')),
     checkPassword = (\<lambda>secret password. Inr (JBool (field secret ''hash'' = password)))
   \<rparr>"

text \<open>The same, with a database that rejects every write.\<close>

definition failing_save_env :: "(jsval \<times> jsval) list env" where
  "failing_save_env =
     example_env\<lparr>saveAccessData := (\<lambda>h accessData l. (Inl (Error ''IO error''), l))\<rparr>"

text \<open>A wallet of a version before 1.0.0: the flat access data, a token, no storage version.\<close>

definition legacy_record :: jsval where
  "legacy_record = JObj
     [(''xpubkey'', JStr ''xpub-old''),
      (''words'', JStr ''enc-words''),
      (''mainKey'', JStr ''enc-main''),
      (''hash'', JStr ''1234''),
      (''salt'', JStr ''s0''),
      (''hashPasswd'', JStr ''pw''),
      (''saltPasswd'', JStr ''s1''),
      (''hashIterations'', JNum 1000),
      (''pbkdf2Hasher'', JStr ''sha1'')]"

definition legacy_store :: "(jsval \<times> jsval) list store" where
  "legacy_store = \<lparr>
     localStorage =
       [(''wallet:accessData'', Json legacy_record),
        (''wallet:tokens'', Json (JArr [JObj [(''uid'', JStr ''00'')]])),
        (''localstorage:lock'', Json (JBool True))],
     this_storage = None,
     lib = []\<rparr>"


text \<open>The same wallet with the two keys that the migration decrypts, and the backup flag.\<close>

definition legacy_record_keys :: jsval where
  "legacy_record_keys = JObj
     [(''xpubkey'', JStr ''xpub-old''),
      (''words'', JStr ''enc-words''),
      (''mainKey'', JStr ''enc-main''),
      (''hash'', JStr ''1234''),
      (''salt'', JStr ''s0''),
      (''hashPasswd'', JStr ''pw''),
      (''saltPasswd'', JStr ''s1''),
      (''hashIterations'', JNum 1000),
      (''pbkdf2Hasher'', JStr ''sha1''),
      (''acctPathMainKey'', JStr ''enc-acct''),
      (''authKey'', JStr ''enc-auth'')]"

definition legacy_store_keys :: "(jsval \<times> jsval) list store" where
  "legacy_store_keys = \<lparr>
     localStorage =
       [(''wallet:accessData'', Json legacy_record_keys),
        (''wallet:backup'', Json (JBool True))],
     this_storage = None,
     lib = []\<rparr>"


text \<open>The same as \<open>example_env\<close>, with a seed that wallet-lib rejects.\<close>

definition failing_seed_env :: "(jsval \<times> jsval) list env" where
  "failing_seed_env =
     example_env\<lparr>generateAccessDataFromSeed :=
       (\<lambda>seed options l. (Inl (Error ''Invalid words''), l))\<rparr>"

text \<open>A hardware wallet: what \<open>initHWStorage\<close> leaves from the empty store.\<close>

definition hardware_store :: "(jsval \<times> jsval) list store" where
  "hardware_store = \<lparr>
     localStorage =
       [(''localstorage:ishardware'', Json (JBool True)),
        (''wallet:id'', Json (JStr ''id-xpub-hw'')),
        (''localstorage:storeversion'', Json (JNum 1))],
     this_storage = Some (Storage (JStr ''id-xpub-hw'')),
     lib =
       [(JStr ''id-xpub-hw'',
         JObj [(''walletType'', JStr ''p2pkh''), (''walletFlags'', JNum 2),
               (''xpubkey'', JStr ''xpub-hw'')])]\<rparr>"

text \<open>
  A wallet of the current format: what \<open>initStorage\<close> leaves from the empty store for
  the seed \<^verbatim>\<open>seed words\<close>, the password \<^verbatim>\<open>pw1\<close> and the PIN \<^verbatim>\<open>1234\<close>.
\<close>

definition current_store :: "(jsval \<times> jsval) list store" where
  "current_store = \<lparr>
     localStorage =
       [(''localstorage:ishardware'', Json (JBool False)),
        (''wallet:id'', Json (JStr ''id-xpub-seed'')),
        (''localstorage:storeversion'', Json (JNum 1))],
     this_storage = Some (Storage (JStr ''id-xpub-seed'')),
     lib =
       [(JStr ''id-xpub-seed'',
         JObj
           [(''walletType'', JStr ''p2pkh''),
            (''walletFlags'', JNum 0),
            (''xpubkey'', JStr ''xpub-seed''),
            (''words'', JObj [(''data'', JStr ''seed words''), (''hash'', JStr ''pw1'')]),
            (''mainKey'', JObj [(''data'', JStr ''xpriv''), (''hash'', JStr ''1234'')])])]\<rparr>"

definition empty_store :: "(jsval \<times> jsval) list store" where
  "empty_store = \<lparr>localStorage = [], this_storage = None, lib = []\<rparr>"

text \<open>A store where an old version of the wallet saved the network name as plain text.\<close>

definition raw_network_store :: "(jsval \<times> jsval) list store" where
  "raw_network_store = \<lparr>
     localStorage = [(''localstorage:network'', Raw ''testnet'')],
     this_storage = None,
     lib = []\<rparr>"

text \<open>A wallet that has been migrated: the storage version is set.\<close>

definition migrated_store :: "(jsval \<times> jsval) list store" where
  "migrated_store = \<lparr>
     localStorage =
       [(''wallet:id'', Json (JStr ''id-xpub-old'')),
        (''localstorage:storeversion'', Json (JNum 1)),
        (''localstorage:network'', Json (JStr ''mainnet''))],
     this_storage = None,
     lib = []\<rparr>"

text \<open>A store written by a later version of the wallet: the storage version is 2.\<close>

definition newer_store :: "(jsval \<times> jsval) list store" where
  "newer_store = \<lparr>
     localStorage =
       [(''wallet:id'', Json (JStr ''id-xpub-old'')),
        (''localstorage:storeversion'', Json (JNum 2)),
        (''localstorage:network'', Json (JStr ''mainnet''))],
     this_storage = None,
     lib = []\<rparr>"

text \<open>The stored storage version is the integer \<open>v\<close>, or the current version.\<close>

definition version_kept :: "int \<Rightarrow> 'lib store \<Rightarrow> bool" where
  "version_kept v st =
     (case map_of (localStorage st) STORE_VERSION_KEY of
        Some (Json (JNum v')) \<Rightarrow> v' = v \<or> JNum v' = version
      | _ \<Rightarrow> False)"

section \<open>Properties kept by an action\<close>

text \<open>
  \<open>keeps P m\<close>: from a state where \<open>P\<close> holds, the method \<open>m\<close> leaves a state where
  \<open>P\<close> holds, whether it returns or throws.
\<close>

definition keeps :: "('lib store \<Rightarrow> bool) \<Rightarrow> ('a, 'lib) action \<Rightarrow> bool" where
  "keeps P m = (\<forall>st. P st \<longrightarrow> P (snd (m st)))"

section \<open>Basic facts\<close>

lemmas action_defs = andThen_def return_def throw_def pure_def libcall_def

lemmas key_defs = WALLET_VERSION_KEY_def STORE_VERSION_KEY_def LEDGER_APP_VERSION_KEY_def
  LOCKED_KEY_def CLOSED_KEY_def STARTED_KEY_def NETWORK_KEY_def IS_HARDWARE_KEY_def
  TOKEN_SIGNATURES_KEY_def IS_BACKUP_DONE_KEY_def SERVER_KEY_def WS_SERVER_KEY_def

text \<open>Everything needed to run the store on a concrete state.\<close>

lemmas run_defs = getWalletId_def isLoadedSync_def setWalletId_def cleanWallet_def
  resetStorage_def setHardwareWallet_def getStorageVersion_def updateStorageVersion_def
  getStorage_def storage_saveAccessData_def storage_getAccessData_def storage_registerToken_def
  initStorage_def initHWStorage_def getAccessData_private_def getAvailableAccessData_def
  handleMigrationOldRegisteredTokens_def markBackupDone_def migrateAccessData_def
  deleteOldData_def handleDataMigration_def checkPin_def set_this_storage_def
  getItem_def setItem_def removeItem_def field_def version_def
  andThen_def return_def throw_def pure_def libcall_def
  WALLET_VERSION_KEY_def STORE_VERSION_KEY_def LEDGER_APP_VERSION_KEY_def
  LOCKED_KEY_def CLOSED_KEY_def STARTED_KEY_def NETWORK_KEY_def IS_HARDWARE_KEY_def
  TOKEN_SIGNATURES_KEY_def IS_BACKUP_DONE_KEY_def SERVER_KEY_def WS_SERVER_KEY_def
  example_env_def failing_save_env_def failing_seed_env_def

lemma getItem_Json:
  "map_of (localStorage st) key = Some (Json v) \<Longrightarrow> getItem key st = (Inr v, st)"
  by (simp add: getItem_def)

lemma getItem_None:
  "map_of (localStorage st) key = None \<Longrightarrow> getItem key st = (Inr JNull, st)"
  by (simp add: getItem_def)

lemma getItem_Raw:
  "map_of (localStorage st) key = Some (Raw s) \<Longrightarrow>
   getItem key st =
     (Inr (JStr s), st\<lparr>localStorage := AList.update key (Json (JStr s)) (localStorage st)\<rparr>)"
  by (simp add: getItem_def setItem_def action_defs)

lemma truthy_not_null: "truthy v \<Longrightarrow> v \<noteq> JNull \<and> v \<noteq> JUndefined"
  by (cases v) simp_all

lemma getProp_field: "v \<noteq> JNull \<Longrightarrow> v \<noteq> JUndefined \<Longrightarrow> getProp v name = Inr (field v name)"
  by (cases v) (simp_all add: field_def)

lemma getProp_null: "v = JNull \<or> v = JUndefined \<Longrightarrow> getProp v name = Inl TypeError"
  by auto

subsection \<open>Running a sequence of statements\<close>

lemma andThen_Inl: "m st = (Inl e, st') \<Longrightarrow> andThen m f st = (Inl e, st')"
  by (simp add: andThen_def)

lemma andThen_Inr: "m st = (Inr a, st') \<Longrightarrow> andThen m f st = f a st'"
  by (simp add: andThen_def)

lemma andThen_assoc: "andThen (andThen m f) g = andThen m (\<lambda>a. andThen (f a) g)"
  by (rule ext) (simp add: andThen_def split: prod.splits sum.splits)

lemma andThen_if: "andThen (if c then a else b) f = (if c then andThen a f else andThen b f)"
  by simp



lemma step_pure_Inr: "andThen (pure (Inr x)) f = f x"
  by (rule ext) (simp add: andThen_def pure_def)

lemma step_pure_Inl: "andThen (pure (Inl e)) f st = (Inl e, st)"
  by (simp add: andThen_def pure_def)

lemma step_setItem:
  "andThen (setItem key v) f st =
     f () (st\<lparr>localStorage := AList.update key (JSON_stringify v) (localStorage st)\<rparr>)"
  by (simp add: andThen_def setItem_def)

lemma step_set_this_storage:
  "andThen (set_this_storage h) f st = f () (st\<lparr>this_storage := h\<rparr>)"
  by (simp add: andThen_def set_this_storage_def)

lemma step_getItem_Json:
  "map_of (localStorage st) key = Some (Json v) \<Longrightarrow> andThen (getItem key) f st = f v st"
  by (simp add: andThen_def getItem_Json)

lemma step_getItem_None:
  "map_of (localStorage st) key = None \<Longrightarrow> andThen (getItem key) f st = f JNull st"
  by (simp add: andThen_def getItem_None)

lemma step_getItem_Raw:
  "map_of (localStorage st) key = Some (Raw s) \<Longrightarrow>
   andThen (getItem key) f st =
     f (JStr s) (st\<lparr>localStorage := AList.update key (Json (JStr s)) (localStorage st)\<rparr>)"
  by (simp add: andThen_def getItem_Raw)




subsection \<open>Actions that keep a property of the state\<close>

lemma keeps_andThen: "keeps P m \<Longrightarrow> (\<And>a. keeps P (f a)) \<Longrightarrow> keeps P (andThen m f)"
  by (auto simp: keeps_def andThen_def split: prod.splits sum.splits)

lemma keeps_return: "keeps P (return a)"
  by (simp add: keeps_def return_def)

lemma keeps_throw: "keeps P (throw e)"
  by (simp add: keeps_def throw_def)

lemma keeps_pure: "keeps P (pure r)"
  by (simp add: keeps_def pure_def)

lemma keeps_if: "keeps P a \<Longrightarrow> keeps P b \<Longrightarrow> keeps P (if c then a else b)"
  by simp

lemma keeps_libcall: "(\<And>st l. P st \<Longrightarrow> P (st\<lparr>lib := l\<rparr>)) \<Longrightarrow> keeps P (libcall f)"
  by (simp add: keeps_def libcall_def split: prod.splits)

lemma keepsD: "keeps P m \<Longrightarrow> P st \<Longrightarrow> P (snd (m st))"
  by (simp add: keeps_def)

section \<open>The adapter repairs a raw entry once\<close>

text \<open>
  Claim C9. When the text stored under a key is not JSON, \<open>getItem\<close> catches the parse
  failure, saves the text again as a JSON string under the same key and returns the text.
  The entry is then JSON: the next \<open>getItem\<close> of the key returns the same string by
  parsing it, and writes nothing.
\<close>

theorem getItem_raw_string_recovered_once:
  assumes "map_of (localStorage st) key = Some (Raw s)"
  shows "getItem key st =
           (Inr (JStr s),
            st\<lparr>localStorage := AList.update key (Json (JStr s)) (localStorage st)\<rparr>)
       \<and> map_of (localStorage (snd (getItem key st))) key = Some (Json (JStr s))
       \<and> getItem key (snd (getItem key st)) = (Inr (JStr s), snd (getItem key st))"
proof -
  have first: "getItem key st =
           (Inr (JStr s),
            st\<lparr>localStorage := AList.update key (Json (JStr s)) (localStorage st)\<rparr>)"
    using assms by (rule getItem_Raw)
  have stored: "map_of (localStorage (snd (getItem key st))) key = Some (Json (JStr s))"
    by (simp add: first update_conv')
  have "getItem key (snd (getItem key st)) = (Inr (JStr s), snd (getItem key st))"
    using stored by (rule getItem_Json)
  with first stored show ?thesis by blast
qed

theorem getItem_raw_string_recovered_once_witness:
  "map_of (localStorage raw_network_store) NETWORK_KEY = Some (Raw ''testnet'')
   \<and> getItem NETWORK_KEY raw_network_store =
       (Inr (JStr ''testnet''),
        raw_network_store\<lparr>localStorage := [(NETWORK_KEY, Json (JStr ''testnet''))]\<rparr>)
   \<and> getItem NETWORK_KEY (snd (getItem NETWORK_KEY raw_network_store)) =
       (Inr (JStr ''testnet''), snd (getItem NETWORK_KEY raw_network_store))"
proof -
  have h: "map_of (localStorage raw_network_store) NETWORK_KEY = Some (Raw ''testnet'')"
    by (simp add: raw_network_store_def NETWORK_KEY_def)
  have upd: "AList.update NETWORK_KEY (Json (JStr ''testnet'')) (localStorage raw_network_store) =
      [(NETWORK_KEY, Json (JStr ''testnet''))]"
    by (simp add: raw_network_store_def NETWORK_KEY_def)
  note r = getItem_raw_string_recovered_once [OF h]
  have a: "getItem NETWORK_KEY raw_network_store =
       (Inr (JStr ''testnet''),
        raw_network_store\<lparr>localStorage := [(NETWORK_KEY, Json (JStr ''testnet''))]\<rparr>)"
    using conjunct1 [OF r] unfolding upd .
  have c: "getItem NETWORK_KEY (snd (getItem NETWORK_KEY raw_network_store)) =
       (Inr (JStr ''testnet''), snd (getItem NETWORK_KEY raw_network_store))"
    using r by blast
  from h a c show ?thesis
    by blast
qed

section \<open>Migration when the storage version is set\<close>

text \<open>
  Claim C3. In a state where \<open>getStorageVersion\<close> returns a value other than \<^verbatim>\<open>null\<close>,
  \<open>handleDataMigration\<close> returns, for any PIN, and the only thing it changes is the
  storage-version key, written with the current version: every other key of
  localStorage, the cached handle and the state of wallet-lib (the access data) are as
  before.
\<close>

theorem handleDataMigration_versioned_only_restamps:
  assumes "getStorageVersion st = (Inr v, st1)" and "v \<noteq> JNull"
  shows "handleDataMigration env pin st =
           (Inr (), st\<lparr>localStorage :=
              AList.update STORE_VERSION_KEY (Json version) (localStorage st)\<rparr>)"
proof (cases "map_of (localStorage st) STORE_VERSION_KEY")
  case None
  with assms show ?thesis
    by (simp add: getStorageVersion_def getItem_None)
next
  case (Some entry)
  show ?thesis
  proof (cases entry)
    case (Json w)
    with Some assms have "getItem STORE_VERSION_KEY st = (Inr v, st)"
      by (simp add: getStorageVersion_def getItem_Json)
    with assms(2) show ?thesis
      by (simp add: handleDataMigration_def getStorageVersion_def updateStorageVersion_def
          version_def setItem_def action_defs)
  next
    case (Raw s)
    with Some have "getItem STORE_VERSION_KEY st =
        (Inr (JStr s), st\<lparr>localStorage :=
           AList.update STORE_VERSION_KEY (Json (JStr s)) (localStorage st)\<rparr>)"
      by (simp add: getItem_Raw)
    then show ?thesis
      by (simp add: handleDataMigration_def getStorageVersion_def updateStorageVersion_def
          version_def setItem_def action_defs)
  qed
qed

theorem handleDataMigration_versioned_only_restamps_witness:
  "getStorageVersion migrated_store = (Inr (JNum 1), migrated_store)
   \<and> JNum 1 \<noteq> JNull
   \<and> handleDataMigration example_env (JStr ''0000'') migrated_store =
       (Inr (), migrated_store\<lparr>localStorage :=
          AList.update STORE_VERSION_KEY (Json version) (localStorage migrated_store)\<rparr>)"
proof -
  have h: "getStorageVersion migrated_store = (Inr (JNum 1), migrated_store)"
    by (simp add: getStorageVersion_def getItem_def migrated_store_def STORE_VERSION_KEY_def)
  have n: "JNum 1 \<noteq> JNull"
    by simp
  from h n handleDataMigration_versioned_only_restamps [OF h n] show ?thesis
    by simp
qed

section \<open>The factory reset\<close>

lemma removeItems_result:
  "removeItems keys st =
     (Inr (), st\<lparr>localStorage := foldl (\<lambda>ls k. AList.delete k ls) (localStorage st) keys\<rparr>)"
  by (induction keys arbitrary: st) (simp_all add: removeItem_def action_defs)

lemma map_of_foldl_delete:
  "map_of (foldl (\<lambda>ls k. AList.delete k ls) ls keys) k =
     (if k \<in> set keys then None else map_of ls k)"
  by (induction keys arbitrary: ls) (simp_all add: delete_conv')

lemma resetStorage_result:
  "resetStorage st =
     (Inr (), st\<lparr>localStorage :=
        foldl (\<lambda>ls k. AList.delete k ls) (localStorage st) (''wallet:id'' # storageKeys)\<rparr>)"
  by (simp add: resetStorage_def removeItems_result removeItem_def action_defs)

text \<open>
  Claim C10. \<open>resetStorage\<close> removes \<^verbatim>\<open>wallet:id\<close> and the eleven keys of
  \<open>storageKeys\<close>, each with the prefix \<^verbatim>\<open>localstorage:\<close>, and leaves every other key
  as it was. A legacy record under \<^verbatim>\<open>wallet:accessData\<close> is therefore still there, and
  \<open>isLoadedSync\<close> returns \<^verbatim>\<open>true\<close> right after the reset.
\<close>

theorem resetStorage_keeps_legacy_access_data:
  assumes "map_of (localStorage st) ''wallet:accessData'' = Some (Json accessData)"
    and "truthy accessData"
  shows "fst (resetStorage st) = Inr ()
       \<and> (\<forall>k. map_of (localStorage (snd (resetStorage st))) k =
              (if k \<in> set (''wallet:id'' # storageKeys) then None
               else map_of (localStorage st) k))
       \<and> length storageKeys = 11
       \<and> (\<forall>k \<in> set storageKeys. prefix ''localstorage:'' k)
       \<and> map_of (localStorage (snd (resetStorage st))) ''wallet:accessData'' =
           Some (Json accessData)
       \<and> fst (isLoadedSync (snd (resetStorage st))) = Inr (JBool True)"
proof -
  let ?st' = "snd (resetStorage st)"
  have frame: "map_of (localStorage ?st') k =
      (if k \<in> set (''wallet:id'' # storageKeys) then None else map_of (localStorage st) k)"
    for k
    by (simp add: resetStorage_result map_of_foldl_delete del: foldl_Cons set_simps)
  have keys: "length storageKeys = 11" "\<forall>k \<in> set storageKeys. prefix ''localstorage:'' k"
    by (simp_all add: storageKeys_def key_defs)
  have notin: "''wallet:accessData'' \<notin> set (''wallet:id'' # storageKeys)"
    by (simp add: storageKeys_def key_defs)
  have legacy: "map_of (localStorage ?st') ''wallet:accessData'' = Some (Json accessData)"
    using frame [of "''wallet:accessData''"] notin assms by simp
  have noid: "map_of (localStorage ?st') ''wallet:id'' = None"
    using frame [of "''wallet:id''"] by simp
  have "isLoadedSync ?st' = (Inr (JBool True), ?st')"
    using assms(2)
    by (simp add: isLoadedSync_def getWalletId_def step_getItem_None [OF noid]
        step_getItem_Json [OF legacy] return_def)
  with frame keys legacy show ?thesis
    by (simp add: resetStorage_result)
qed

theorem resetStorage_keeps_legacy_access_data_witness:
  "map_of (localStorage legacy_store) ''wallet:accessData'' = Some (Json legacy_record)
   \<and> truthy legacy_record
   \<and> map_of (localStorage (snd (resetStorage legacy_store))) LOCKED_KEY = None
   \<and> map_of (localStorage (snd (resetStorage legacy_store))) ''wallet:accessData'' =
       Some (Json legacy_record)
   \<and> fst (isLoadedSync (snd (resetStorage legacy_store))) = Inr (JBool True)"
proof -
  have h: "map_of (localStorage legacy_store) ''wallet:accessData'' = Some (Json legacy_record)"
    by (simp add: legacy_store_def)
  have t: "truthy legacy_record"
    by (simp add: legacy_record_def)
  note r = resetStorage_keeps_legacy_access_data [OF h t]
  have k: "LOCKED_KEY \<in> set (''wallet:id'' # storageKeys)"
    by (simp add: storageKeys_def)
  from r have "map_of (localStorage (snd (resetStorage legacy_store))) LOCKED_KEY =
      (if LOCKED_KEY \<in> set (''wallet:id'' # storageKeys) then None
       else map_of (localStorage legacy_store) LOCKED_KEY)"
    by blast
  with k have a: "map_of (localStorage (snd (resetStorage legacy_store))) LOCKED_KEY = None"
    by (simp only: if_True)
  from r have b: "map_of (localStorage (snd (resetStorage legacy_store))) ''wallet:accessData'' =
      Some (Json legacy_record)"
    by blast
  from r have c: "fst (isLoadedSync (snd (resetStorage legacy_store))) = Inr (JBool True)"
    by blast
  from h t a b c show ?thesis
    by blast
qed

section \<open>The server URLs\<close>

text \<open>
  \<open>setServers\<close> stores its first argument under both keys: whenever a WebSocket URL is
  given, \<open>getWsServer\<close> then returns the fullnode URL, as \<open>getServer\<close> does.
\<close>

lemma setServers_then_getServer:
  "serverURL \<noteq> JUndefined \<Longrightarrow>
   fst (getServer (snd (setServers serverURL wsServerURL st))) = Inr (json_value serverURL)"
  by (cases serverURL)
    (simp_all add: getServer_def setServers_def setItem_def getItem_def action_defs update_conv'
      key_defs)

lemma setServers_then_getWsServer:
  "serverURL \<noteq> JUndefined \<Longrightarrow> truthy wsServerURL \<Longrightarrow>
   fst (getWsServer (snd (setServers serverURL wsServerURL st))) = Inr (json_value serverURL)"
  by (cases serverURL)
    (simp_all add: getWsServer_def setServers_def setItem_def getItem_def action_defs update_conv')

text \<open>
  Claim C6, at the input where the code departs from it: after
  \<^verbatim>\<open>setServers('https://node', 'wss://ws')\<close>, from any state, \<open>getWsServer\<close> returns the
  fullnode URL \<^verbatim>\<open>https://node\<close> and not the WebSocket URL that was passed.
\<close>

theorem setServers_saves_serverURL_as_wsServer:
  "fst (getWsServer (snd (setServers (JStr ''https://node'') (JStr ''wss://ws'') st))) =
     Inr (JStr ''https://node'')"
  by (simp add: getWsServer_def setServers_def setItem_def getItem_def action_defs update_conv')

section \<open>Migration of a legacy record\<close>

text \<open>
  On a legacy record, \<open>migrateAccessData\<close> is the two optional decrypt-and-encrypt steps
  followed by the construction of the new record; it writes nothing to localStorage.
\<close>

lemma migrateAccessData_legacy:
  assumes "map_of (localStorage st) ''wallet:accessData'' = Some (Json old)" and "truthy old"
  shows "migrateAccessData env pin st =
     andThen (if truthy (field old ''acctPathMainKey'')
              then andThen (pure (AES_decrypt_Utf8 env (field old ''acctPathMainKey'') pin))
                     (\<lambda>acctKeyStr. libcall (encryptData env acctKeyStr pin))
              else return JUndefined) (\<lambda>acctPathKey.
     andThen (if truthy (field old ''authKey'')
              then andThen (pure (AES_decrypt_Utf8 env (field old ''authKey'') pin))
                     (\<lambda>authKeyStr. libcall (encryptData env authKeyStr pin))
              else return JUndefined) (\<lambda>authKey.
     return (JObj
       [(''walletType'', WalletType_P2PKH env),
        (''walletFlags'', JNum 0),
        (''xpubkey'', field old ''xpubkey''),
        (''acctPathKey'', acctPathKey),
        (''authKey'', authKey),
        (''words'', JObj
           [(''data'', field old ''words''),
            (''hash'', field old ''hashPasswd''),
            (''salt'', field old ''saltPasswd''),
            (''iterations'', field old ''hashIterations''),
            (''pbkdf2Hasher'', field old ''pbkdf2Hasher'')]),
        (''mainKey'', JObj
           [(''data'', field old ''mainKey''),
            (''hash'', field old ''hash''),
            (''salt'', field old ''salt''),
            (''iterations'', field old ''hashIterations''),
            (''pbkdf2Hasher'', field old ''pbkdf2Hasher'')])]))) st"
proof -
  from truthy_not_null [OF assms(2)]
  have p: "getProp old ''acctPathMainKey'' = Inr (field old ''acctPathMainKey'')"
    by (simp add: getProp_field)
  show ?thesis
    by (simp only: migrateAccessData_def step_getItem_Json [OF assms(1)] p step_pure_Inr)
qed

lemma migrateAccessData_frame:
  assumes "map_of (localStorage st) ''wallet:accessData'' = Some (Json old)" and "truthy old"
  shows "localStorage (snd (migrateAccessData env pin st)) = localStorage st
       \<and> this_storage (snd (migrateAccessData env pin st)) = this_storage st"
proof -
  let ?P = "\<lambda>s. localStorage s = localStorage st \<and> this_storage s = this_storage st"
  have "?P (snd (migrateAccessData env pin st))"
    unfolding migrateAccessData_legacy [OF assms]
    by (rule keepsD [where P = ?P])
       (intro keeps_andThen keeps_if keeps_pure keeps_return keeps_libcall, simp_all)
  then show ?thesis .
qed

lemma migrateAccessData_fails:
  assumes "map_of (localStorage st) ''wallet:accessData'' = Some (Json old)" and "truthy old"
    and "(truthy (field old ''acctPathMainKey'')
            \<and> isl (AES_decrypt_Utf8 env (field old ''acctPathMainKey'') pin))
         \<or> (truthy (field old ''authKey'')
            \<and> isl (AES_decrypt_Utf8 env (field old ''authKey'') pin))"
  shows "isl (fst (migrateAccessData env pin st))"
  using assms(3) unfolding migrateAccessData_legacy [OF assms(1,2)]
  by (auto simp: action_defs isl_def split: sum.splits prod.splits)



lemma handleDataMigration_migration_throws:
  assumes "map_of (localStorage st) STORE_VERSION_KEY = None"
    and "migrateAccessData env pin st = (Inl e, st')"
  shows "handleDataMigration env pin st = (Inl e, st')"
  unfolding handleDataMigration_def getStorageVersion_def
  by (simp add: step_getItem_None [OF assms(1)] andThen_assoc
      andThen_Inl [where m = "migrateAccessData env pin", OF assms(2)])

text \<open>
  Claim C1 as stated fails. A legacy record that has neither \<^verbatim>\<open>acctPathMainKey\<close> nor
  \<^verbatim>\<open>authKey\<close>, and the PIN \<^verbatim>\<open>0000\<close> under which decrypting its \<^verbatim>\<open>words\<close> and its
  \<^verbatim>\<open>mainKey\<close> throws: the migration decrypts nothing, returns, removes the legacy
  record and sets the storage version.
\<close>

theorem handleDataMigration_wrong_pin_removes_legacy_record:
  "map_of (localStorage legacy_store) STORE_VERSION_KEY = None
   \<and> map_of (localStorage legacy_store) ''wallet:accessData'' = Some (Json legacy_record)
   \<and> AES_decrypt_Utf8 example_env (field legacy_record ''words'') (JStr ''0000'') =
       Inl (Error ''Malformed UTF-8 data'')
   \<and> AES_decrypt_Utf8 example_env (field legacy_record ''mainKey'') (JStr ''0000'') =
       Inl (Error ''Malformed UTF-8 data'')
   \<and> fst (handleDataMigration example_env (JStr ''0000'') legacy_store) = Inr ()
   \<and> map_of (localStorage (snd (handleDataMigration example_env (JStr ''0000'') legacy_store)))
       ''wallet:accessData'' = None
   \<and> map_of (localStorage (snd (handleDataMigration example_env (JStr ''0000'') legacy_store)))
       STORE_VERSION_KEY = Some (Json (JNum 1))"
  by (simp add: run_defs legacy_store_def legacy_record_def)

text \<open>
  Claim C1, as amended. With no storage version and a legacy record under
  \<^verbatim>\<open>wallet:accessData\<close>: if decrypting the record's \<^verbatim>\<open>acctPathMainKey\<close> or its
  \<^verbatim>\<open>authKey\<close> with the PIN throws (these are the fields the migration decrypts, each
  only when it is present), \<open>handleDataMigration\<close> throws before it writes anything:
  localStorage, and with it the legacy record, every \<^verbatim>\<open>wallet:\<close> key and the absent
  storage version, is unchanged, and so is the cached handle.
\<close>

theorem handleDataMigration_decryption_throws_keeps_localStorage:
  assumes "map_of (localStorage st) STORE_VERSION_KEY = None"
    and "map_of (localStorage st) ''wallet:accessData'' = Some (Json old)" and "truthy old"
    and "(truthy (field old ''acctPathMainKey'')
            \<and> isl (AES_decrypt_Utf8 env (field old ''acctPathMainKey'') pin))
         \<or> (truthy (field old ''authKey'')
            \<and> isl (AES_decrypt_Utf8 env (field old ''authKey'') pin))"
  shows "isl (fst (handleDataMigration env pin st))
       \<and> localStorage (snd (handleDataMigration env pin st)) = localStorage st
       \<and> this_storage (snd (handleDataMigration env pin st)) = this_storage st"
proof -
  from migrateAccessData_fails [OF assms(2,3,4)]
  obtain e st' where m: "migrateAccessData env pin st = (Inl e, st')"
    by (cases "migrateAccessData env pin st") (auto simp: isl_def)
  have "handleDataMigration env pin st = (Inl e, st')"
    using assms(1) m by (rule handleDataMigration_migration_throws)
  with m migrateAccessData_frame [OF assms(2,3), of env pin] show ?thesis
    by simp
qed

theorem handleDataMigration_decryption_throws_keeps_localStorage_witness:
  "map_of (localStorage legacy_store_keys) STORE_VERSION_KEY = None
   \<and> map_of (localStorage legacy_store_keys) ''wallet:accessData'' = Some (Json legacy_record_keys)
   \<and> truthy legacy_record_keys
   \<and> truthy (field legacy_record_keys ''acctPathMainKey'')
   \<and> isl (AES_decrypt_Utf8 example_env (field legacy_record_keys ''acctPathMainKey'')
        (JStr ''0000''))
   \<and> isl (fst (handleDataMigration example_env (JStr ''0000'') legacy_store_keys))
   \<and> localStorage (snd (handleDataMigration example_env (JStr ''0000'') legacy_store_keys)) =
       localStorage legacy_store_keys
   \<and> this_storage (snd (handleDataMigration example_env (JStr ''0000'') legacy_store_keys)) =
       this_storage legacy_store_keys"
proof -
  have a: "map_of (localStorage legacy_store_keys) STORE_VERSION_KEY = None"
    by (simp add: legacy_store_keys_def STORE_VERSION_KEY_def)
  have l: "map_of (localStorage legacy_store_keys) ''wallet:accessData'' =
      Some (Json legacy_record_keys)"
    by (simp add: legacy_store_keys_def)
  have t: "truthy legacy_record_keys"
    by (simp add: legacy_record_keys_def)
  have k: "truthy (field legacy_record_keys ''acctPathMainKey'')"
    by (simp add: legacy_record_keys_def field_def)
  have d: "isl (AES_decrypt_Utf8 example_env (field legacy_record_keys ''acctPathMainKey'')
      (JStr ''0000''))"
    by (simp add: example_env_def)
  from k d have f: "(truthy (field legacy_record_keys ''acctPathMainKey'')
            \<and> isl (AES_decrypt_Utf8 example_env (field legacy_record_keys ''acctPathMainKey'')
                 (JStr ''0000'')))
         \<or> (truthy (field legacy_record_keys ''authKey'')
            \<and> isl (AES_decrypt_Utf8 example_env (field legacy_record_keys ''authKey'')
                 (JStr ''0000'')))"
    by blast
  from a l t k d handleDataMigration_decryption_throws_keeps_localStorage [OF a l t f]
  show ?thesis
    by blast
qed

text \<open>
  Claim C4 as stated fails: the migration does not decrypt \<^verbatim>\<open>words\<close>. With the PIN that
  decrypts, the new record's \<^verbatim>\<open>words\<close> is the legacy ciphertext as it was, with the
  legacy \<^verbatim>\<open>hashPasswd\<close> and \<^verbatim>\<open>saltPasswd\<close>, and not what encrypting the decrypted
  words under the PIN gives.
\<close>

theorem migrateAccessData_copies_words_undecrypted:
  "AES_decrypt_Utf8 example_env (field legacy_record ''words'') (JStr ''1234'') =
     Inr (JStr ''dec-enc-words'')
   \<and> fst (encryptData example_env (JStr ''dec-enc-words'') (JStr ''1234'') (lib legacy_store)) =
       Inr (JObj [(''data'', JStr ''dec-enc-words''), (''hash'', JStr ''1234''),
                  (''salt'', JStr ''s''), (''iterations'', JNum 1000),
                  (''pbkdf2Hasher'', JStr ''sha1'')])
   \<and> migrateAccessData example_env (JStr ''1234'') legacy_store =
       (Inr (JObj
          [(''walletType'', JStr ''p2pkh''),
           (''walletFlags'', JNum 0),
           (''xpubkey'', JStr ''xpub-old''),
           (''acctPathKey'', JUndefined),
           (''authKey'', JUndefined),
           (''words'', JObj
              [(''data'', JStr ''enc-words''), (''hash'', JStr ''pw''), (''salt'', JStr ''s1''),
               (''iterations'', JNum 1000), (''pbkdf2Hasher'', JStr ''sha1'')]),
           (''mainKey'', JObj
              [(''data'', JStr ''enc-main''), (''hash'', JStr ''1234''), (''salt'', JStr ''s0''),
               (''iterations'', JNum 1000), (''pbkdf2Hasher'', JStr ''sha1'')])]),
        legacy_store)"
  by (simp add: run_defs legacy_store_def legacy_record_def)

text \<open>
  Claim C4, as amended. On a legacy record the migration decrypts with the PIN the
  fields \<^verbatim>\<open>acctPathMainKey\<close> and \<^verbatim>\<open>authKey\<close>, each when it is present, and encrypts
  each again with \<^verbatim>\<open>cryptoUtils.encryptData\<close> under the same PIN, into \<^verbatim>\<open>acctPathKey\<close>
  and \<^verbatim>\<open>authKey\<close> of the new record. It decrypts neither \<^verbatim>\<open>words\<close> nor \<^verbatim>\<open>mainKey\<close>:
  their ciphertexts are carried over in records with the legacy \<^verbatim>\<open>hashPasswd\<close> and
  \<^verbatim>\<open>saltPasswd\<close> (words), \<^verbatim>\<open>hash\<close> and \<^verbatim>\<open>salt\<close> (main key), \<^verbatim>\<open>hashIterations\<close>
  and \<^verbatim>\<open>pbkdf2Hasher\<close>. Nothing is written to localStorage.
\<close>

theorem migrateAccessData_result:
  assumes "map_of (localStorage st) ''wallet:accessData'' = Some (Json old)" and "truthy old"
    and "truthy (field old ''acctPathMainKey'') \<longrightarrow>
           AES_decrypt_Utf8 env (field old ''acctPathMainKey'') pin = Inr p1
           \<and> encryptData env p1 pin (lib st) = (Inr k1, l1)"
    and "truthy (field old ''authKey'') \<longrightarrow>
           AES_decrypt_Utf8 env (field old ''authKey'') pin = Inr p2
           \<and> encryptData env p2 pin
               (if truthy (field old ''acctPathMainKey'') then l1 else lib st) =
             (Inr k2, l2)"
  shows "migrateAccessData env pin st =
     (Inr (JObj
        [(''walletType'', WalletType_P2PKH env),
         (''walletFlags'', JNum 0),
         (''xpubkey'', field old ''xpubkey''),
         (''acctPathKey'', if truthy (field old ''acctPathMainKey'') then k1 else JUndefined),
         (''authKey'', if truthy (field old ''authKey'') then k2 else JUndefined),
         (''words'', JObj
            [(''data'', field old ''words''),
             (''hash'', field old ''hashPasswd''),
             (''salt'', field old ''saltPasswd''),
             (''iterations'', field old ''hashIterations''),
             (''pbkdf2Hasher'', field old ''pbkdf2Hasher'')]),
         (''mainKey'', JObj
            [(''data'', field old ''mainKey''),
             (''hash'', field old ''hash''),
             (''salt'', field old ''salt''),
             (''iterations'', field old ''hashIterations''),
             (''pbkdf2Hasher'', field old ''pbkdf2Hasher'')])]),
      st\<lparr>lib := (if truthy (field old ''authKey'') then l2
                 else if truthy (field old ''acctPathMainKey'') then l1
                 else lib st)\<rparr>)"
proof (cases "truthy (field old ''acctPathMainKey'')")
  case True
  note acct = True
  show ?thesis
  proof (cases "truthy (field old ''authKey'')")
    case True
    with acct assms(3,4) show ?thesis
      unfolding migrateAccessData_legacy [OF assms(1,2)] by (simp add: action_defs)
  next
    case False
    with acct assms(3) show ?thesis
      unfolding migrateAccessData_legacy [OF assms(1,2)] by (simp add: action_defs)
  qed
next
  case False
  note acct = False
  show ?thesis
  proof (cases "truthy (field old ''authKey'')")
    case True
    with acct assms(4) show ?thesis
      unfolding migrateAccessData_legacy [OF assms(1,2)] by (simp add: action_defs)
  next
    case False
    with acct show ?thesis
      unfolding migrateAccessData_legacy [OF assms(1,2)] by (simp add: action_defs)
  qed
qed

theorem migrateAccessData_result_witness:
  "map_of (localStorage legacy_store_keys) ''wallet:accessData'' = Some (Json legacy_record_keys)
   \<and> truthy legacy_record_keys
   \<and> truthy (field legacy_record_keys ''acctPathMainKey'')
   \<and> AES_decrypt_Utf8 example_env (field legacy_record_keys ''acctPathMainKey'') (JStr ''1234'') =
       Inr (JStr ''dec-enc-acct'')
   \<and> truthy (field legacy_record_keys ''authKey'')
   \<and> AES_decrypt_Utf8 example_env (field legacy_record_keys ''authKey'') (JStr ''1234'') =
       Inr (JStr ''dec-enc-auth'')
   \<and> migrateAccessData example_env (JStr ''1234'') legacy_store_keys =
       (Inr (JObj
          [(''walletType'', JStr ''p2pkh''),
           (''walletFlags'', JNum 0),
           (''xpubkey'', JStr ''xpub-old''),
           (''acctPathKey'', JObj
              [(''data'', JStr ''dec-enc-acct''), (''hash'', JStr ''1234''), (''salt'', JStr ''s''),
               (''iterations'', JNum 1000), (''pbkdf2Hasher'', JStr ''sha1'')]),
           (''authKey'', JObj
              [(''data'', JStr ''dec-enc-auth''), (''hash'', JStr ''1234''), (''salt'', JStr ''s''),
               (''iterations'', JNum 1000), (''pbkdf2Hasher'', JStr ''sha1'')]),
           (''words'', JObj
              [(''data'', JStr ''enc-words''), (''hash'', JStr ''pw''), (''salt'', JStr ''s1''),
               (''iterations'', JNum 1000), (''pbkdf2Hasher'', JStr ''sha1'')]),
           (''mainKey'', JObj
              [(''data'', JStr ''enc-main''), (''hash'', JStr ''1234''), (''salt'', JStr ''s0''),
               (''iterations'', JNum 1000), (''pbkdf2Hasher'', JStr ''sha1'')])]),
        legacy_store_keys)"
proof -
  let ?enc = "\<lambda>d. JObj [(''data'', JStr d), (''hash'', JStr ''1234''), (''salt'', JStr ''s''),
               (''iterations'', JNum 1000), (''pbkdf2Hasher'', JStr ''sha1'')]"
  have l: "map_of (localStorage legacy_store_keys) ''wallet:accessData'' =
      Some (Json legacy_record_keys)"
    by (simp add: legacy_store_keys_def)
  have t: "truthy legacy_record_keys"
    by (simp add: legacy_record_keys_def)
  have k1: "truthy (field legacy_record_keys ''acctPathMainKey'')"
    and k2: "truthy (field legacy_record_keys ''authKey'')"
    by (simp_all add: legacy_record_keys_def field_def)
  have d1: "AES_decrypt_Utf8 example_env (field legacy_record_keys ''acctPathMainKey'')
      (JStr ''1234'') = Inr (JStr ''dec-enc-acct'')"
    and d2: "AES_decrypt_Utf8 example_env (field legacy_record_keys ''authKey'')
      (JStr ''1234'') = Inr (JStr ''dec-enc-auth'')"
    by (simp_all add: legacy_record_keys_def field_def example_env_def)
  have e1: "encryptData example_env (JStr ''dec-enc-acct'') (JStr ''1234'')
      (lib legacy_store_keys) = (Inr (?enc ''dec-enc-acct''), [])"
    by (simp add: example_env_def legacy_store_keys_def)
  have e2: "encryptData example_env (JStr ''dec-enc-auth'') (JStr ''1234'')
      (if truthy (field legacy_record_keys ''acctPathMainKey'') then []
       else lib legacy_store_keys) = (Inr (?enc ''dec-enc-auth''), [])"
    by (simp add: example_env_def legacy_store_keys_def)
  from d1 e1 have h1: "truthy (field legacy_record_keys ''acctPathMainKey'') \<longrightarrow>
      AES_decrypt_Utf8 example_env (field legacy_record_keys ''acctPathMainKey'') (JStr ''1234'') =
        Inr (JStr ''dec-enc-acct'')
      \<and> encryptData example_env (JStr ''dec-enc-acct'') (JStr ''1234'') (lib legacy_store_keys) =
        (Inr (?enc ''dec-enc-acct''), [])"
    by blast
  from d2 e2 have h2: "truthy (field legacy_record_keys ''authKey'') \<longrightarrow>
      AES_decrypt_Utf8 example_env (field legacy_record_keys ''authKey'') (JStr ''1234'') =
        Inr (JStr ''dec-enc-auth'')
      \<and> encryptData example_env (JStr ''dec-enc-auth'') (JStr ''1234'')
          (if truthy (field legacy_record_keys ''acctPathMainKey'') then []
           else lib legacy_store_keys) = (Inr (?enc ''dec-enc-auth''), [])"
    by blast
  have same: "legacy_store_keys\<lparr>lib := []\<rparr> = legacy_store_keys"
    by (simp add: legacy_store_keys_def)
  have "migrateAccessData example_env (JStr ''1234'') legacy_store_keys =
       (Inr (JObj
          [(''walletType'', JStr ''p2pkh''),
           (''walletFlags'', JNum 0),
           (''xpubkey'', JStr ''xpub-old''),
           (''acctPathKey'', ?enc ''dec-enc-acct''),
           (''authKey'', ?enc ''dec-enc-auth''),
           (''words'', JObj
              [(''data'', JStr ''enc-words''), (''hash'', JStr ''pw''), (''salt'', JStr ''s1''),
               (''iterations'', JNum 1000), (''pbkdf2Hasher'', JStr ''sha1'')]),
           (''mainKey'', JObj
              [(''data'', JStr ''enc-main''), (''hash'', JStr ''1234''), (''salt'', JStr ''s0''),
               (''iterations'', JNum 1000), (''pbkdf2Hasher'', JStr ''sha1'')])]),
        legacy_store_keys)"
    using migrateAccessData_result [OF l t h1 h2] k1 k2 same
    by (simp add: legacy_record_keys_def field_def example_env_def)
  with l t k1 k2 d1 d2 show ?thesis
    by blast
qed

section \<open>Initialisation from a seed\<close>

lemma step_libcall_reading:
  "g s (lib s) = (r, l) \<Longrightarrow>
   andThen (\<lambda>st. libcall (g st) st) f s =
     (case r of Inl e \<Rightarrow> (Inl e, s\<lparr>lib := l\<rparr>) | Inr a \<Rightarrow> f a (s\<lparr>lib := l\<rparr>))"
  by (simp add: andThen_def libcall_def split: sum.splits)

text \<open>
  Claim C2 as stated fails. When the database rejects the write of the access data,
  \<open>initStorage\<close> throws after it has stored \<^verbatim>\<open>wallet:id\<close>: the wallet id stays, and there
  is no access data for it.
\<close>

theorem initStorage_failed_save_leaves_wallet_id:
  "initStorage failing_save_env (JStr ''seed words'') (JStr ''pw1'') (JStr ''1234'') JUndefined
     empty_store =
     (Inl (Error ''IO error''),
      \<lparr>localStorage =
         [(''localstorage:ishardware'', Json (JBool False)),
          (''wallet:id'', Json (JStr ''id-xpub-seed''))],
       this_storage = Some (Storage (JStr ''id-xpub-seed'')),
       lib = []\<rparr>)
   \<and> getAccessData failing_save_env (Storage (JStr ''id-xpub-seed'')) [] = (Inr JNull, [])"
  by (simp add: run_defs empty_store_def)

text \<open>
  Claim C2, as amended. If seed generation or key derivation fails, that is, if
  \<^verbatim>\<open>generateAccessDataFromSeed\<close> throws, or the access data has no readable
  \<^verbatim>\<open>xpubkey\<close>, or \<^verbatim>\<open>getWalletIdFromXPub\<close> throws, then \<open>initStorage\<close> throws that
  error and \<^verbatim>\<open>wallet:id\<close> is not written: the call has only dropped the cached handle
  and set the hardware flag to \<^verbatim>\<open>false\<close>.
\<close>

theorem initStorage_derivation_failure_writes_no_wallet_id:
  assumes "generateAccessDataFromSeed env seed
             (JObj [(''pin'', pin),
                    (''passphrase'', if passphrase = JUndefined then JStr [] else passphrase),
                    (''password'', password),
                    (''networkName'', config_getNetwork_name env (lib st))]) (lib st) = (r, l)"
    and "r = Inl e
         \<or> (\<exists>accessData. r = Inr accessData
              \<and> (getProp accessData ''xpubkey'' = Inl e
                 \<or> (\<exists>xpubkey. getProp accessData ''xpubkey'' = Inr xpubkey
                       \<and> getWalletIdFromXPub env xpubkey = Inl e)))"
  shows "initStorage env seed password pin passphrase st =
           (Inl e, st\<lparr>this_storage := None,
                     localStorage :=
                       AList.update IS_HARDWARE_KEY (Json (JBool False)) (localStorage st),
                     lib := l\<rparr>)
       \<and> map_of (localStorage (snd (initStorage env seed password pin passphrase st)))
            ''wallet:id'' = map_of (localStorage st) ''wallet:id''"
proof -
  let ?st' = "st\<lparr>this_storage := None,
                localStorage :=
                  AList.update IS_HARDWARE_KEY (Json (JBool False)) (localStorage st),
                lib := l\<rparr>"
  have run: "initStorage env seed password pin passphrase st =
      (case r of
         Inl e \<Rightarrow> (Inl e, ?st')
       | Inr accessData \<Rightarrow>
           andThen (pure (getProp accessData ''xpubkey'')) (\<lambda>xpubkey.
           andThen (pure (getWalletIdFromXPub env xpubkey)) (\<lambda>walletId.
           andThen (setWalletId walletId) (\<lambda>_.
           andThen getStorage (\<lambda>storage.
           andThen (storage_saveAccessData env storage accessData) (\<lambda>_.
           andThen (set_this_storage storage) (\<lambda>_.
           andThen updateStorageVersion (\<lambda>_.
           return storage))))))) ?st')"
    unfolding initStorage_def Let_def
    by (cases r; simp add: step_set_this_storage setHardwareWallet_def step_setItem
        step_libcall_reading [where g = "\<lambda>s. generateAccessDataFromSeed env seed
             (JObj [(''pin'', pin),
                    (''passphrase'', if passphrase = JUndefined then JStr [] else passphrase),
                    (''password'', password),
                    (''networkName'', config_getNetwork_name env (lib s))])" and r = r and l = l]
        assms(1))
  from assms(2) have "initStorage env seed password pin passphrase st = (Inl e, ?st')"
  proof (elim disjE exE conjE)
    assume "r = Inl e"
    then show ?thesis by (simp add: run)
  next
    fix accessData
    assume "r = Inr accessData" "getProp accessData ''xpubkey'' = Inl e"
    then show ?thesis by (simp add: run step_pure_Inl)
  next
    fix accessData xpubkey
    assume "r = Inr accessData" "getProp accessData ''xpubkey'' = Inr xpubkey"
      "getWalletIdFromXPub env xpubkey = Inl e"
    then show ?thesis by (simp add: run step_pure_Inr step_pure_Inl)
  qed
  then show ?thesis
    by (simp add: update_conv' IS_HARDWARE_KEY_def)
qed

theorem initStorage_derivation_failure_writes_no_wallet_id_witness:
  "generateAccessDataFromSeed failing_seed_env (JStr ''not a seed'')
     (JObj [(''pin'', JStr ''1234''),
            (''passphrase'', if JUndefined = JUndefined then JStr [] else JUndefined),
            (''password'', JStr ''pw1''),
            (''networkName'', config_getNetwork_name failing_seed_env (lib empty_store))])
     (lib empty_store) = (Inl (Error ''Invalid words''), [])
   \<and> initStorage failing_seed_env (JStr ''not a seed'') (JStr ''pw1'') (JStr ''1234'') JUndefined
       empty_store =
       (Inl (Error ''Invalid words''),
        empty_store\<lparr>localStorage := [(IS_HARDWARE_KEY, Json (JBool False))]\<rparr>)
   \<and> map_of (localStorage (snd (initStorage failing_seed_env (JStr ''not a seed'') (JStr ''pw1'')
         (JStr ''1234'') JUndefined empty_store))) ''wallet:id'' = None"
proof -
  have g: "generateAccessDataFromSeed failing_seed_env (JStr ''not a seed'')
     (JObj [(''pin'', JStr ''1234''),
            (''passphrase'', if JUndefined = JUndefined then JStr [] else JUndefined),
            (''password'', JStr ''pw1''),
            (''networkName'', config_getNetwork_name failing_seed_env (lib empty_store))])
     (lib empty_store) = (Inl (Error ''Invalid words''), [])"
    by (simp add: failing_seed_env_def example_env_def empty_store_def)
  have f: "Inl (Error ''Invalid words'') = (Inl (Error ''Invalid words'') :: error + jsval)
         \<or> (\<exists>accessData. (Inl (Error ''Invalid words'') :: error + jsval) = Inr accessData
              \<and> (getProp accessData ''xpubkey'' = Inl (Error ''Invalid words'')
                 \<or> (\<exists>xpubkey. getProp accessData ''xpubkey'' = Inr xpubkey
                       \<and> getWalletIdFromXPub failing_seed_env xpubkey =
                           Inl (Error ''Invalid words''))))"
    by simp
  note r = initStorage_derivation_failure_writes_no_wallet_id [OF g f]
  have s: "empty_store\<lparr>this_storage := None,
      localStorage :=
        AList.update IS_HARDWARE_KEY (Json (JBool False)) (localStorage empty_store),
      lib := []\<rparr> =
      empty_store\<lparr>localStorage := [(IS_HARDWARE_KEY, Json (JBool False))]\<rparr>"
    by (simp add: empty_store_def)
  have a: "initStorage failing_seed_env (JStr ''not a seed'') (JStr ''pw1'') (JStr ''1234'')
       JUndefined empty_store =
       (Inl (Error ''Invalid words''),
        empty_store\<lparr>localStorage := [(IS_HARDWARE_KEY, Json (JBool False))]\<rparr>)"
    using conjunct1 [OF r] unfolding s .
  have "map_of (localStorage empty_store) ''wallet:id'' = None"
    by (simp add: empty_store_def)
  with conjunct2 [OF r]
  have b: "map_of (localStorage (snd (initStorage failing_seed_env (JStr ''not a seed'')
      (JStr ''pw1'') (JStr ''1234'') JUndefined empty_store))) ''wallet:id'' = None"
    by simp
  from g a b show ?thesis
    by blast
qed

section \<open>Checking the PIN\<close>

lemma getProp_field_defined:
  "field v name \<noteq> JUndefined \<Longrightarrow> getProp v name = Inr (field v name)"
  by (cases v) (simp_all add: field_def)

lemma getProp_cases:
  "getProp v name = Inl TypeError \<or> getProp v name = Inr (field v name)"
  by (cases v) (simp_all add: field_def)

text \<open>
  Claim C7 as stated fails. A hardware wallet is loaded and has access data, of the
  current format and without a \<^verbatim>\<open>mainKey\<close>; \<open>checkPin\<close> throws a TypeError on it.
\<close>

theorem checkPin_throws_on_hardware_wallet:
  "initHWStorage example_env (JStr ''xpub-hw'') empty_store =
     (Inr (Some (Storage (JStr ''id-xpub-hw''))), hardware_store)
   \<and> isLoadedSync hardware_store = (Inr (JBool True), hardware_store)
   \<and> getAvailableAccessData example_env hardware_store =
       (Inr (JObj [(''walletType'', JStr ''p2pkh''), (''walletFlags'', JNum 2),
                   (''xpubkey'', JStr ''xpub-hw'')]),
        hardware_store)
   \<and> checkPin example_env (JStr ''1234'') hardware_store = (Inl TypeError, hardware_store)"
  by (simp add: run_defs empty_store_def hardware_store_def)

text \<open>
  Claim C7, as amended. Let \<open>getAvailableAccessData\<close> return the access data, legacy or
  current. When its \<^verbatim>\<open>mainKey\<close> is a string (the legacy shape, a bare ciphertext),
  \<open>checkPin\<close> returns what \<^verbatim>\<open>cryptoUtils.checkPassword\<close> returns for the PIN and the
  record made of that ciphertext and the legacy \<^verbatim>\<open>hash\<close>, \<^verbatim>\<open>salt\<close>,
  \<^verbatim>\<open>hashIterations\<close> and \<^verbatim>\<open>pbkdf2Hasher\<close>; when it is a record with a \<^verbatim>\<open>data\<close> (the
  current shape), what \<^verbatim>\<open>checkPassword\<close> returns for the PIN and that record: a
  boolean, \<^verbatim>\<open>false\<close> on a wrong PIN, whenever \<^verbatim>\<open>checkPassword\<close> returns one. It throws
  a TypeError when there is no access data, and also when the access data has no
  \<^verbatim>\<open>mainKey\<close>.
\<close>

theorem checkPin_result:
  assumes "getAvailableAccessData env st = (Inr accessData, st')"
  shows "(accessData = JNull \<longrightarrow> checkPin env pinCode st = (Inl TypeError, st'))
       \<and> (field accessData ''mainKey'' = JUndefined \<or> field accessData ''mainKey'' = JNull \<longrightarrow>
            checkPin env pinCode st = (Inl TypeError, st'))
       \<and> (\<forall>c. field accessData ''mainKey'' = JStr c \<longrightarrow>
            checkPin env pinCode st =
              (checkPassword env
                 (JObj [(''data'', JStr c),
                        (''hash'', field accessData ''hash''),
                        (''salt'', field accessData ''salt''),
                        (''iterations'', field accessData ''hashIterations''),
                        (''pbkdf2Hasher'', field accessData ''pbkdf2Hasher'')]) pinCode, st'))
       \<and> (\<forall>enc. field accessData ''mainKey'' = JObj enc \<and> truthy (field (JObj enc) ''data'') \<longrightarrow>
            checkPin env pinCode st = (checkPassword env (JObj enc) pinCode, st'))"
proof -
  have run: "checkPin env pinCode st =
     andThen (pure (getProp accessData ''mainKey'')) (\<lambda>mainKey.
     andThen (pure (getProp mainKey ''data'')) (\<lambda>data.
       let mainEncryptedData =
         (if \<not> truthy data
          then JObj
            [(''data'', field accessData ''mainKey''),
             (''hash'', field accessData ''hash''),
             (''salt'', field accessData ''salt''),
             (''iterations'', field accessData ''hashIterations''),
             (''pbkdf2Hasher'', field accessData ''pbkdf2Hasher'')]
          else mainKey)
       in pure (checkPassword env mainEncryptedData pinCode))) st'"
    unfolding checkPin_def
    by (rule andThen_Inr [where m = "getAvailableAccessData env", OF assms])
  have null: "checkPin env pinCode st = (Inl TypeError, st')" if "accessData = JNull"
    using that by (simp add: run step_pure_Inl)
  have missing: "checkPin env pinCode st = (Inl TypeError, st')"
    if "field accessData ''mainKey'' = JUndefined \<or> field accessData ''mainKey'' = JNull"
    using that getProp_cases [of accessData "''mainKey''"]
    by (auto simp: run step_pure_Inl step_pure_Inr)
  have legacy: "checkPin env pinCode st =
              (checkPassword env
                 (JObj [(''data'', JStr c),
                        (''hash'', field accessData ''hash''),
                        (''salt'', field accessData ''salt''),
                        (''iterations'', field accessData ''hashIterations''),
                        (''pbkdf2Hasher'', field accessData ''pbkdf2Hasher'')]) pinCode, st')"
    if "field accessData ''mainKey'' = JStr c" for c
  proof -
    from that have "getProp accessData ''mainKey'' = Inr (JStr c)"
      using getProp_field_defined [of accessData "''mainKey''"] by simp
    with that show ?thesis
      by (simp add: run step_pure_Inr pure_def)
  qed
  have current: "checkPin env pinCode st = (checkPassword env (JObj enc) pinCode, st')"
    if "field accessData ''mainKey'' = JObj enc" "truthy (field (JObj enc) ''data'')" for enc
  proof -
    from that have "getProp accessData ''mainKey'' = Inr (JObj enc)"
      using getProp_field_defined [of accessData "''mainKey''"] by simp
    moreover have "getProp (JObj enc) ''data'' = Inr (field (JObj enc) ''data'')"
      by (simp add: field_def)
    ultimately show ?thesis
      using that(2) by (simp add: run step_pure_Inr pure_def)
  qed
  from null missing legacy current show ?thesis
    by blast
qed

theorem checkPin_result_witness:
  "getAvailableAccessData example_env legacy_store = (Inr legacy_record, legacy_store)
   \<and> field legacy_record ''mainKey'' = JStr ''enc-main''
   \<and> checkPin example_env (JStr ''0000'') legacy_store = (Inr (JBool False), legacy_store)
   \<and> checkPin example_env (JStr ''1234'') legacy_store = (Inr (JBool True), legacy_store)
   \<and> checkPin example_env (JStr ''0000'') current_store = (Inr (JBool False), current_store)
   \<and> checkPin example_env (JStr ''1234'') current_store = (Inr (JBool True), current_store)
   \<and> getAvailableAccessData example_env empty_store = (Inr JNull, empty_store)
   \<and> checkPin example_env (JStr ''1234'') empty_store = (Inl TypeError, empty_store)"
proof -
  have g: "getAvailableAccessData example_env legacy_store = (Inr legacy_record, legacy_store)"
    by (simp add: run_defs legacy_store_def legacy_record_def)
  have m: "field legacy_record ''mainKey'' = JStr ''enc-main''"
    by (simp add: legacy_record_def field_def)
  have c: "checkPin example_env p legacy_store =
              (checkPassword example_env
                 (JObj [(''data'', JStr ''enc-main''),
                        (''hash'', field legacy_record ''hash''),
                        (''salt'', field legacy_record ''salt''),
                        (''iterations'', field legacy_record ''hashIterations''),
                        (''pbkdf2Hasher'', field legacy_record ''pbkdf2Hasher'')]) p,
               legacy_store)" for p
    using checkPin_result [OF g, of p] m by blast
  have l: "checkPin example_env (JStr ''0000'') legacy_store = (Inr (JBool False), legacy_store)"
    "checkPin example_env (JStr ''1234'') legacy_store = (Inr (JBool True), legacy_store)"
    unfolding c by (simp_all add: example_env_def legacy_record_def field_def)
  let ?current = "JObj
           [(''walletType'', JStr ''p2pkh''),
            (''walletFlags'', JNum 0),
            (''xpubkey'', JStr ''xpub-seed''),
            (''words'', JObj [(''data'', JStr ''seed words''), (''hash'', JStr ''pw1'')]),
            (''mainKey'', JObj [(''data'', JStr ''xpriv''), (''hash'', JStr ''1234'')])]"
  have g2: "getAvailableAccessData example_env current_store = (Inr ?current, current_store)"
    by (simp add: run_defs current_store_def)
  have m2: "field ?current ''mainKey'' = JObj [(''data'', JStr ''xpriv''), (''hash'', JStr ''1234'')]
      \<and> truthy (field (JObj [(''data'', JStr ''xpriv''), (''hash'', JStr ''1234'')]) ''data'')"
    by (simp add: field_def)
  have c2: "checkPin example_env p current_store =
      (checkPassword example_env (JObj [(''data'', JStr ''xpriv''), (''hash'', JStr ''1234'')]) p,
       current_store)" for p
    using checkPin_result [OF g2, of p] m2 by blast
  have n: "checkPin example_env (JStr ''0000'') current_store = (Inr (JBool False), current_store)"
    "checkPin example_env (JStr ''1234'') current_store = (Inr (JBool True), current_store)"
    unfolding c2 by (simp_all add: example_env_def field_def)
  have g3: "getAvailableAccessData example_env empty_store = (Inr JNull, empty_store)"
    by (simp add: run_defs empty_store_def)
  have e: "checkPin example_env (JStr ''1234'') empty_store = (Inl TypeError, empty_store)"
    using checkPin_result [OF g3, of "JStr ''1234''"] by blast
  from g m l n g3 e show ?thesis
    by (intro conjI)
qed

section \<open>The migration of a legacy wallet\<close>





lemma map_of_removeWalletKeys:
  "map_of (removeWalletKeys keys ls) k =
     (if k \<in> set keys \<and> prefix ''wallet:'' k \<and> k \<noteq> ''wallet:id'' then None else map_of ls k)"
proof (induction keys arbitrary: ls)
  case Nil
  show ?case by simp
next
  case (Cons key keys)
  show ?case
  proof (cases "key = ''wallet:id''")
    case True
    have "removeWalletKeys (key # keys) ls = removeWalletKeys keys ls"
      using True by (simp only: removeWalletKeys.simps if_True simp_thms)
    moreover have "(k \<in> set (key # keys) \<and> prefix ''wallet:'' k \<and> k \<noteq> ''wallet:id'')
        = (k \<in> set keys \<and> prefix ''wallet:'' k \<and> k \<noteq> ''wallet:id'')"
      using True by auto
    ultimately show ?thesis
      by (simp only: Cons.IH)
  next
    case False
    note nid = False
    show ?thesis
    proof (cases "prefix ''wallet:'' key")
      case True
      have r: "removeWalletKeys (key # keys) ls = removeWalletKeys keys (AList.delete key ls)"
        using True nid by (simp only: removeWalletKeys.simps if_True if_False)
      show ?thesis
        unfolding r Cons.IH delete_conv' using True nid
        by (cases "k = key") (simp_all only: fun_upd_apply set_simps insert_iff simp_thms if_True if_False split: if_splits)
    next
      case False
      have r: "removeWalletKeys (key # keys) ls = removeWalletKeys keys ls"
        using False nid by (simp only: removeWalletKeys.simps if_True if_False)
      show ?thesis
        unfolding r Cons.IH using False nid
        by (cases "k = key") (simp_all only: set_simps insert_iff simp_thms if_True if_False split: if_splits)
    qed
  qed
qed

lemma map_of_deleteOldData:
  "map_of (removeWalletKeys (map fst ls) ls) k =
     (if prefix ''wallet:'' k \<and> k \<noteq> ''wallet:id'' then None else map_of ls k)"
proof (cases "k \<in> set (map fst ls)")
  case True
  then show ?thesis by (simp add: map_of_removeWalletKeys)
next
  case False
  then have "map_of ls k = None"
    by (simp add: map_of_eq_None_iff)
  with False show ?thesis by (simp add: map_of_removeWalletKeys)
qed






section \<open>The storage version under the operations of the store\<close>

lemma version_kept_iff:
  "version_kept v st \<longleftrightarrow>
     (\<exists>v'. map_of (localStorage st) STORE_VERSION_KEY = Some (Json (JNum v'))
        \<and> (v' = v \<or> v' = 1))"
  by (auto simp: version_kept_def version_def
      split: option.splits lsentry.splits jsval.splits)

lemma version_kept_lib [simp]:
  "version_kept v (st\<lparr>lib := l\<rparr>) = version_kept v st"
  by (simp add: version_kept_def)

lemma version_kept_this_storage [simp]:
  "version_kept v (st\<lparr>this_storage := h\<rparr>) = version_kept v st"
  by (simp add: version_kept_def)

lemma version_kept_other_key:
  "key \<noteq> STORE_VERSION_KEY \<Longrightarrow>
   version_kept v (st\<lparr>localStorage := AList.update key e (localStorage st)\<rparr>) =
     version_kept v st"
  by (simp add: version_kept_def update_conv')

lemma version_kept_delete_other:
  "key \<noteq> STORE_VERSION_KEY \<Longrightarrow>
   version_kept v (st\<lparr>localStorage := AList.delete key (localStorage st)\<rparr>) =
     version_kept v st"
  by (simp add: version_kept_def delete_conv')

lemma keeps_version_setItem:
  "key \<noteq> STORE_VERSION_KEY \<Longrightarrow> keeps (version_kept v) (setItem key x)"
  by (simp add: keeps_def setItem_def version_kept_other_key)

lemma keeps_version_removeItem:
  "key \<noteq> STORE_VERSION_KEY \<Longrightarrow> keeps (version_kept v) (removeItem key)"
  by (simp add: keeps_def removeItem_def version_kept_delete_other)

lemma keeps_version_getItem: "keeps (version_kept v) (getItem key)"
  unfolding keeps_def
proof (intro allI impI)
  fix st :: "'a store"
  assume a: "version_kept v st"
  show "version_kept v (snd (getItem key st))"
  proof (cases "map_of (localStorage st) key")
    case None
    with a show ?thesis by (simp add: getItem_None)
  next
    case (Some entry)
    show ?thesis
    proof (cases entry)
      case (Json w)
      with Some a show ?thesis by (simp add: getItem_Json)
    next
      case (Raw s)
      with Some a have "key \<noteq> STORE_VERSION_KEY"
        by (auto simp: version_kept_iff)
      with Some Raw a show ?thesis
        by (simp add: getItem_Raw version_kept_other_key)
    qed
  qed
qed

lemma keeps_version_set_this_storage: "keeps (version_kept v) (set_this_storage h)"
  by (simp add: keeps_def set_this_storage_def)

lemma keeps_version_libcall: "keeps (version_kept v) (libcall f)"
  by (rule keeps_libcall) simp

lemma keeps_version_libcall_reading: "keeps (version_kept v) (\<lambda>st. libcall (g st) st)"
  by (simp add: keeps_def libcall_def split: prod.splits)

lemma keeps_version_updateStorageVersion: "keeps (version_kept v) updateStorageVersion"
  by (simp add: keeps_def updateStorageVersion_def setItem_def version_def version_kept_def
      update_conv')

lemma keeps_version_deleteOldData: "keeps (version_kept v) deleteOldData"
  by (simp add: keeps_def deleteOldData_def version_kept_def map_of_deleteOldData
      STORE_VERSION_KEY_def)

lemmas keeps_basic = keeps_andThen keeps_if keeps_return keeps_throw keeps_pure
  keeps_version_getItem keeps_version_set_this_storage keeps_version_libcall
  keeps_version_libcall_reading keeps_version_deleteOldData

lemma keeps_version_getWalletId: "keeps (version_kept v) getWalletId"
  unfolding getWalletId_def by (rule keeps_version_getItem)

lemma keeps_version_isLoadedSync: "keeps (version_kept v) isLoadedSync"
  unfolding isLoadedSync_def by (intro keeps_basic keeps_version_getWalletId)

lemma keeps_version_setWalletId: "keeps (version_kept v) (setWalletId w)"
  unfolding setWalletId_def by (rule keeps_version_setItem) (simp add: STORE_VERSION_KEY_def)

lemma keeps_version_cleanWallet: "keeps (version_kept v) cleanWallet"
  unfolding cleanWallet_def
  by (intro keeps_basic keeps_version_removeItem) (simp_all add: key_defs)

lemma keeps_version_setHardwareWallet: "keeps (version_kept v) (setHardwareWallet x)"
  unfolding setHardwareWallet_def by (rule keeps_version_setItem) (simp add: key_defs)

lemma keeps_version_isHardwareWallet: "keeps (version_kept v) isHardwareWallet"
  unfolding isHardwareWallet_def by (intro keeps_basic)

lemma keeps_version_getStorageVersion: "keeps (version_kept v) getStorageVersion"
  unfolding getStorageVersion_def by (rule keeps_version_getItem)

lemma keeps_version_getStorage: "keeps (version_kept v) getStorage"
proof -
  have k: "keeps (version_kept v)
      (andThen getWalletId (\<lambda>walletId.
         if \<not> truthy walletId then return None
         else andThen (set_this_storage (Some (Storage walletId))) (\<lambda>_.
           return (Some (Storage walletId)))))"
    by (intro keeps_basic keeps_version_getWalletId)
  show ?thesis
    unfolding keeps_def
  proof (intro allI impI)
    fix st :: "'a store"
    assume a: "version_kept v st"
    show "version_kept v (snd (getStorage st))"
    proof (cases "this_storage st")
      case None
      with keepsD [OF k a] show ?thesis by (simp add: getStorage_def)
    next
      case (Some h)
      with a show ?thesis by (simp add: getStorage_def)
    qed
  qed
qed

lemma keeps_version_storage_saveAccessData:
  "keeps (version_kept v) (storage_saveAccessData env storage accessData)"
  unfolding storage_saveAccessData_def by (cases storage) (simp_all add: keeps_basic)

lemma keeps_version_storage_getAccessData:
  "keeps (version_kept v) (storage_getAccessData env storage)"
  unfolding storage_getAccessData_def by (cases storage) (simp_all add: keeps_basic)

lemma keeps_version_storage_registerToken:
  "keeps (version_kept v) (storage_registerToken env storage token)"
  unfolding storage_registerToken_def by (cases storage) (simp_all add: keeps_basic)

lemmas keeps_more = keeps_basic keeps_version_getWalletId keeps_version_setWalletId
  keeps_version_setHardwareWallet keeps_version_getStorage
  keeps_version_storage_saveAccessData keeps_version_storage_getAccessData
  keeps_version_storage_registerToken keeps_version_updateStorageVersion

lemma keeps_version_initStorage:
  "keeps (version_kept v) (initStorage env seed password pin passphrase)"
  unfolding initStorage_def Let_def by (intro keeps_more)

lemma keeps_version_initHWStorage: "keeps (version_kept v) (initHWStorage env xpub)"
  unfolding initHWStorage_def by (intro keeps_more)

lemma keeps_version_getAccessData_private:
  "keeps (version_kept v) (getAccessData_private env)"
  unfolding getAccessData_private_def by (intro keeps_more)

lemma keeps_version_getAvailableAccessData:
  "keeps (version_kept v) (getAvailableAccessData env)"
  unfolding getAvailableAccessData_def by (intro keeps_more keeps_version_getAccessData_private)

lemma keeps_version_isLoaded: "keeps (version_kept v) (isLoaded env)"
  unfolding isLoaded_def by (intro keeps_more keeps_version_getAvailableAccessData)

lemma keeps_version_getOldWalletWords:
  "keeps (version_kept v) (getOldWalletWords env password)"
  unfolding getOldWalletWords_def by (intro keeps_more)

lemma keeps_version_getWalletWords:
  "keeps (version_kept v) (getWalletWords env password)"
  unfolding getWalletWords_def by (intro keeps_more)

lemma keeps_version_registerTokens:
  "keeps (version_kept v) (registerTokens env storage tokens)"
  by (induction tokens) (simp_all add: keeps_more)

lemma keeps_version_handleMigrationOldRegisteredTokens:
  "keeps (version_kept v) (handleMigrationOldRegisteredTokens env storage)"
  unfolding handleMigrationOldRegisteredTokens_def
  by (intro keeps_more keeps_version_registerTokens)

lemma keeps_version_markBackupDone: "keeps (version_kept v) markBackupDone"
  unfolding markBackupDone_def by (rule keeps_version_setItem) (simp add: key_defs)

lemma keeps_version_migrateAccessData:
  "keeps (version_kept v) (migrateAccessData env pin)"
  unfolding migrateAccessData_def by (intro keeps_more)

lemma keeps_version_handleDataMigration:
  "keeps (version_kept v) (handleDataMigration env pin)"
  unfolding handleDataMigration_def
  by (intro keeps_more keeps_version_getStorageVersion keeps_version_migrateAccessData
      keeps_version_handleMigrationOldRegisteredTokens keeps_version_markBackupDone)

lemma keeps_version_checkPin: "keeps (version_kept v) (checkPin env pinCode)"
  unfolding checkPin_def Let_def by (intro keeps_more keeps_version_getAvailableAccessData)

lemma keeps_version_setServers: "keeps (version_kept v) (setServers serverURL wsServerURL)"
  unfolding setServers_def by (intro keeps_more keeps_version_setItem) (simp_all add: key_defs)

lemma keeps_version_setNetwork: "keeps (version_kept v) (setNetwork env networkName)"
  unfolding setNetwork_def by (intro keeps_more keeps_version_setItem) (simp_all add: key_defs)

lemma keeps_version_getters:
  "keeps (version_kept v) getServer"
  "keeps (version_kept v) getWsServer"
  "keeps (version_kept v) isLocked"
  "keeps (version_kept v) wasClosed"
  "keeps (version_kept v) wasStarted"
  "keeps (version_kept v) getWalletVersion"
  "keeps (version_kept v) getNetwork"
  "keeps (version_kept v) getTokenSignatures"
  "keeps (version_kept v) isBackupDone"
  "keeps (version_kept v) getLedgerAppVersion"
  unfolding getServer_def getWsServer_def isLocked_def wasClosed_def wasStarted_def
    getWalletVersion_def getNetwork_def getTokenSignatures_def isBackupDone_def
    getLedgerAppVersion_def
  by (intro keeps_more)+

lemma keeps_version_setters:
  "keeps (version_kept v) lock"
  "keeps (version_kept v) unlock"
  "keeps (version_kept v) close"
  "keeps (version_kept v) openWallet"
  "keeps (version_kept v) markWalletAsStarted"
  "keeps (version_kept v) (setWalletVersion env)"
  "keeps (version_kept v) (setTokenSignatures d)"
  "keeps (version_kept v) resetTokenSignatures"
  "keeps (version_kept v) markBackupAsNotDone"
  "keeps (version_kept v) (saveLedgerAppVersion x)"
  unfolding lock_def unlock_def close_def openWallet_def markWalletAsStarted_def
    setWalletVersion_def setTokenSignatures_def resetTokenSignatures_def
    markBackupAsNotDone_def saveLedgerAppVersion_def
  by (intro keeps_version_setItem keeps_version_removeItem, simp add: key_defs)+

lemmas kept_version =
  keepsD [OF keeps_version_getItem] keepsD [OF keeps_version_setItem]
  keepsD [OF keeps_version_removeItem] keepsD [OF keeps_version_getWalletId]
  keepsD [OF keeps_version_isLoadedSync] keepsD [OF keeps_version_setWalletId]
  keepsD [OF keeps_version_cleanWallet] keepsD [OF keeps_version_initStorage]
  keepsD [OF keeps_version_initHWStorage] keepsD [OF keeps_version_getStorage]
  keepsD [OF keeps_version_getAccessData_private]
  keepsD [OF keeps_version_getAvailableAccessData] keepsD [OF keeps_version_isLoaded]
  keepsD [OF keeps_version_getStorageVersion] keepsD [OF keeps_version_updateStorageVersion]
  keepsD [OF keeps_version_getOldWalletWords] keepsD [OF keeps_version_getWalletWords]
  keepsD [OF keeps_version_handleMigrationOldRegisteredTokens]
  keepsD [OF keeps_version_handleDataMigration] keepsD [OF keeps_version_migrateAccessData]
  keepsD [OF keeps_version_checkPin] keepsD [OF keeps_version_setServers]
  keepsD [OF keeps_version_setNetwork] keepsD [OF keeps_version_setHardwareWallet]
  keepsD [OF keeps_version_isHardwareWallet] keepsD [OF keeps_version_markBackupDone]
  keeps_version_getters [THEN keepsD] keeps_version_setters [THEN keepsD]

lemma run_keeps_version:
  assumes "\<not> drops_version opn" and "version_kept v st"
  shows "version_kept v (run env opn st)"
  using assms by (cases opn) (simp_all add: kept_version)

lemma getStorageVersion_integer:
  "fst (getStorageVersion st) = Inr (JNum v) \<longleftrightarrow>
     map_of (localStorage st) STORE_VERSION_KEY = Some (Json (JNum v))"
proof (cases "map_of (localStorage st) STORE_VERSION_KEY")
  case None
  then show ?thesis
    by (simp add: getStorageVersion_def getItem_None)
next
  case (Some entry)
  show ?thesis
  proof (cases entry)
    case (Json w)
    with Some show ?thesis
      by (simp add: getStorageVersion_def getItem_Json)
  next
    case (Raw s)
    with Some show ?thesis
      by (simp add: getStorageVersion_def getItem_Raw)
  qed
qed

text \<open>
  Claim C8 as stated fails, in two ways. \<open>resetStorage\<close> removes the storage-version
  key, which is one of \<open>storageKeys\<close>: after it, on a store whose version was 1,
  \<open>getStorageVersion\<close> returns \<^verbatim>\<open>null\<close>. And \<open>updateStorageVersion\<close> writes the current
  version 1 whatever is stored: on a store whose version is 2, \<open>handleDataMigration\<close>
  and \<open>initHWStorage\<close> lower it to 1.
\<close>

theorem storage_version_removed_or_lowered:
  "fst (getStorageVersion migrated_store) = Inr (JNum 1)
   \<and> fst (getStorageVersion (run example_env OpResetStorage migrated_store)) = Inr JNull
   \<and> fst (getStorageVersion newer_store) = Inr (JNum 2)
   \<and> fst (getStorageVersion (run example_env (OpHandleDataMigration (JStr ''1234''))
         newer_store)) = Inr (JNum 1)
   \<and> fst (getStorageVersion (run example_env (OpInitHWStorage (JStr ''xpub-hw''))
         newer_store)) = Inr (JNum 1)"
proof -
  have "STORE_VERSION_KEY \<in> set (''wallet:id'' # storageKeys)"
    by (simp add: storageKeys_def)
  then have "map_of (localStorage (snd (resetStorage migrated_store))) STORE_VERSION_KEY = None"
    by (simp add: resetStorage_result map_of_foldl_delete del: foldl_Cons set_simps)
  then have "getStorageVersion (snd (resetStorage migrated_store)) =
      (Inr JNull, snd (resetStorage migrated_store))"
    unfolding getStorageVersion_def by (rule getItem_None)
  then have a: "fst (getStorageVersion (run example_env OpResetStorage migrated_store)) =
      Inr JNull"
    by simp
  have b: "fst (getStorageVersion migrated_store) = Inr (JNum 1)"
    by (simp add: getStorageVersion_def getItem_def migrated_store_def STORE_VERSION_KEY_def)
  have c: "fst (getStorageVersion newer_store) = Inr (JNum 2)"
    by (simp add: getStorageVersion_def getItem_def newer_store_def STORE_VERSION_KEY_def)
  have d: "fst (getStorageVersion (run example_env (OpHandleDataMigration (JStr ''1234''))
      newer_store)) = Inr (JNum 1)"
    by (simp add: run_defs newer_store_def)
  have e: "fst (getStorageVersion (run example_env (OpInitHWStorage (JStr ''xpub-hw''))
      newer_store)) = Inr (JNum 1)"
    by (simp add: run_defs newer_store_def)
  from b a c d e show ?thesis
    by (intro conjI)
qed

text \<open>
  Claim C8, as amended. Take any method of the store other than \<open>resetStorage\<close>, and
  other than the adapter's \<^verbatim>\<open>clear\<close> and its \<^verbatim>\<open>setItem\<close> and \<^verbatim>\<open>removeItem\<close> on the
  storage-version key itself. If \<open>getStorageVersion\<close> returns an integer \<open>v\<close> before the
  call, then after the call, whether it returned or threw, \<open>getStorageVersion\<close> returns
  either \<open>v\<close> or the current version 1: the version is never removed, and it is not
  lowered when \<open>v\<close> is not above the current version.
\<close>

theorem storage_version_kept_or_current:
  assumes "\<not> drops_version opn"
    and "fst (getStorageVersion st) = Inr (JNum v)"
  shows "(fst (getStorageVersion (run env opn st)) = Inr (JNum v)
          \<or> fst (getStorageVersion (run env opn st)) = Inr version)
       \<and> (v \<le> 1 \<longrightarrow>
            (\<exists>v'. fst (getStorageVersion (run env opn st)) = Inr (JNum v') \<and> v \<le> v'))"
proof -
  from assms(2) have "map_of (localStorage st) STORE_VERSION_KEY = Some (Json (JNum v))"
    by (simp only: getStorageVersion_integer)
  then have before: "version_kept v st"
    by (simp add: version_kept_def)
  from run_keeps_version [OF assms(1) before, of env]
  obtain v' where
    after: "map_of (localStorage (run env opn st)) STORE_VERSION_KEY = Some (Json (JNum v'))"
    and v': "v' = v \<or> v' = 1"
    unfolding version_kept_iff by (elim exE conjE)
  from after have r: "fst (getStorageVersion (run env opn st)) = Inr (JNum v')"
    by (simp only: getStorageVersion_integer)
  from v' have first: "fst (getStorageVersion (run env opn st)) = Inr (JNum v)
          \<or> fst (getStorageVersion (run env opn st)) = Inr version"
    unfolding r version_def by simp
  have "v \<le> v'" if "v \<le> 1"
    using v' that by auto
  with r have second: "v \<le> 1 \<longrightarrow>
      (\<exists>v'. fst (getStorageVersion (run env opn st)) = Inr (JNum v') \<and> v \<le> v')"
    by (intro impI exI [of _ v']) simp
  from first second show ?thesis ..
qed

theorem storage_version_kept_or_current_witness:
  "\<not> drops_version (OpHandleDataMigration (JStr ''0000''))
   \<and> \<not> drops_version (OpInitStorage (JStr ''seed words'') (JStr ''pw1'') (JStr ''1234'')
         JUndefined)
   \<and> \<not> drops_version (OpInitHWStorage (JStr ''xpub-hw''))
   \<and> \<not> drops_version OpCleanWallet
   \<and> fst (getStorageVersion migrated_store) = Inr (JNum 1)
   \<and> (1 :: int) \<le> 1
   \<and> fst (getStorageVersion (run example_env (OpHandleDataMigration (JStr ''0000''))
         migrated_store)) = Inr (JNum 1)
   \<and> fst (getStorageVersion (run example_env (OpInitStorage (JStr ''seed words'')
         (JStr ''pw1'') (JStr ''1234'') JUndefined) migrated_store)) = Inr (JNum 1)
   \<and> fst (getStorageVersion (run example_env (OpInitHWStorage (JStr ''xpub-hw''))
         migrated_store)) = Inr (JNum 1)
   \<and> fst (getStorageVersion (run example_env OpCleanWallet migrated_store)) = Inr (JNum 1)
   \<and> (\<exists>v'. fst (getStorageVersion (run example_env OpCleanWallet migrated_store)) =
         Inr (JNum v') \<and> 1 \<le> v')
   \<and> fst (getStorageVersion newer_store) = Inr (JNum 2)
   \<and> (fst (getStorageVersion (run example_env OpCleanWallet newer_store)) = Inr (JNum 2)
       \<or> fst (getStorageVersion (run example_env OpCleanWallet newer_store)) = Inr version)"
proof -
  have a: "\<not> drops_version (OpHandleDataMigration (JStr ''0000''))"
    "\<not> drops_version (OpInitStorage (JStr ''seed words'') (JStr ''pw1'') (JStr ''1234'')
         JUndefined)"
    "\<not> drops_version (OpInitHWStorage (JStr ''xpub-hw''))"
    "\<not> drops_version OpCleanWallet"
    by simp_all
  have b: "fst (getStorageVersion migrated_store) = Inr (JNum 1)"
    by (simp add: getStorageVersion_def getItem_def migrated_store_def STORE_VERSION_KEY_def)
  have c: "(1 :: int) \<le> 1"
    by simp
  have same: "fst (getStorageVersion (run example_env opn migrated_store)) = Inr (JNum 1)"
    if "\<not> drops_version opn" for opn
    using storage_version_kept_or_current [OF that b, of example_env]
    by (simp add: version_def)
  have d: "\<exists>v'. fst (getStorageVersion (run example_env OpCleanWallet migrated_store)) =
         Inr (JNum v') \<and> 1 \<le> v'"
    using storage_version_kept_or_current [OF a(4) b, of example_env] c
    by (elim conjE impE)
  have e: "fst (getStorageVersion newer_store) = Inr (JNum 2)"
    by (simp add: getStorageVersion_def getItem_def newer_store_def STORE_VERSION_KEY_def)
  have f: "fst (getStorageVersion (run example_env OpCleanWallet newer_store)) = Inr (JNum 2)
       \<or> fst (getStorageVersion (run example_env OpCleanWallet newer_store)) = Inr version"
    using storage_version_kept_or_current [OF a(4) e, of example_env]
    by (elim conjE)
  from a b c same [OF a(1)] same [OF a(2)] same [OF a(3)] same [OF a(4)] d e f
  show ?thesis
    by (intro conjI)
qed

end
